theory Spec2Isabelle
  imports Complex_Main "HOL-Library.Char_ord" "HOL-Library.List_Lexorder"
begin

section \<open>Python values and exceptions\<close>

text \<open>
  The programs of this repository compute with Python floats. They are idealised here as
  real numbers: rounding, overflow, infinities and NaN are left out, and every formula is
  written with the association of the source expression. An exception is a value of
  \<open>py_error\<close>; a computation that may raise has the type \<open>py_error + 'a\<close>, with \<open>Inl\<close>
  for the exception. Python's \<open>None\<close> is \<open>None\<close> of an option type.
\<close>

datatype py_error = IndexError | ZeroDivisionError | AttributeError | TypeError | ValueError

definition bind_py :: "py_error + 'a \<Rightarrow> ('a \<Rightarrow> py_error + 'b) \<Rightarrow> py_error + 'b" where
  "bind_py m f = (case m of Inl e \<Rightarrow> Inl e | Inr x \<Rightarrow> f x)"

text \<open>\<open>xs[n]\<close> for an index \<open>n \<ge> 0\<close>: IndexError past the end.\<close>

definition getitem :: "'a list \<Rightarrow> nat \<Rightarrow> py_error + 'a" where
  "getitem xs n = (if n < length xs then Inr (xs ! n) else Inl IndexError)"

text \<open>
  Division \<open>a / b\<close> of Python numbers (\<open>int\<close>, \<open>float\<close>): ZeroDivisionError when the
  divisor is zero. A numpy scalar gives \<open>inf\<close> or \<open>nan\<close> with a warning there instead;
  the reals have no such values, so no general statement below is made about a division by
  zero.
\<close>

definition truediv :: "real \<Rightarrow> real \<Rightarrow> py_error + real" where
  "truediv a b = (if b = 0 then Inl ZeroDivisionError else Inr (a / b))"

section \<open>The resistor network (Problem 1.py, Problem\_1\_Test\_2.py)\<close>

text \<open>
  \<open>Resistor\<close>, \<open>VoltageSource\<close> and \<open>Loop\<close> are the classes of the same names. The
  attributes \<open>Type\<close> of a source and \<open>Name\<close> of a loop exist only once the file reader has
  assigned them, hence the option types. A network owns its elements in three lists; the
  elements of a list are distinct objects, as \<open>BuildNetworkFromFile\<close> creates them. The
  list \<open>ParallelResistors\<close> that Problem\_1\_Test\_2.py adds is never read or written after
  the constructor, and is left out.
\<close>

record Resistor =
  Resistance :: real
  Current :: real
  Name :: string

record VoltageSource =
  Voltage :: real
  Name :: string
  Type :: "string option"

record Loop =
  Nodes :: "string list"
  Name :: "string option"

record ResistorNetwork =
  Loops :: "Loop list"
  Resistors :: "Resistor list"
  VSources :: "VoltageSource list"

text \<open>The constructors with their default arguments.\<close>

definition Resistor_init :: Resistor where
  "Resistor_init = \<lparr>Resistance = 1.0, Current = 0.0, Resistor.Name = ''ab''\<rparr>"

definition VoltageSource_init :: VoltageSource where
  "VoltageSource_init = \<lparr>Voltage = 12.0, VoltageSource.Name = ''ab'', Type = None\<rparr>"

definition Loop_init :: Loop where
  "Loop_init = \<lparr>Nodes = [], Loop.Name = None\<rparr>"

definition ResistorNetwork_init :: ResistorNetwork where
  "ResistorNetwork_init = \<lparr>Loops = [], Resistors = [], VSources = []\<rparr>"

definition DeltaV :: "Resistor \<Rightarrow> real" where
  "DeltaV r = Current r * Resistance r"

text \<open>
  \<open>GetResistorByName\<close> returns the first resistor of that name, or falls off the end of
  its loop and returns \<open>None\<close>. The resistor is returned by reference: the model returns
  its position in \<open>Resistors\<close>.
\<close>

fun resistor_index :: "Resistor list \<Rightarrow> string \<Rightarrow> nat \<Rightarrow> nat option" where
  "resistor_index [] name k = None"
| "resistor_index (r # rs) name k =
     (if Resistor.Name r = name then Some k else resistor_index rs name (Suc k))"

definition GetResistorByName :: "ResistorNetwork \<Rightarrow> string \<Rightarrow> nat option" where
  "GetResistorByName net name = resistor_index (Resistors net) name 0"

text \<open>
  The statement \<open>self.GetResistorByName(name).Current = v\<close>, with \<open>v\<close> already evaluated:
  setting an attribute of \<open>None\<close> raises AttributeError.
\<close>

definition set_Current :: "ResistorNetwork \<Rightarrow> string \<Rightarrow> real \<Rightarrow> py_error + ResistorNetwork" where
  "set_Current net name v =
     (case GetResistorByName net name of
        None \<Rightarrow> Inl AttributeError
      | Some k \<Rightarrow> Inr (net\<lparr>Resistors := (Resistors net)[k := (Resistors net ! k)\<lparr>Current := v\<rparr>]\<rparr>))"

text \<open>
  \<open>GetElementDeltaV\<close>: the two loops of the method, each trying the name and then the
  reversed name \<open>name[::-1]\<close> on every element in turn; \<open>None\<close> when both loops end.
\<close>

fun resistor_DeltaV :: "Resistor list \<Rightarrow> string \<Rightarrow> real option" where
  "resistor_DeltaV [] name = None"
| "resistor_DeltaV (r # rs) name =
     (if name = Resistor.Name r then Some (- DeltaV r)
      else if rev name = Resistor.Name r then Some (- DeltaV r)
      else resistor_DeltaV rs name)"

fun source_DeltaV :: "VoltageSource list \<Rightarrow> string \<Rightarrow> real option" where
  "source_DeltaV [] name = None"
| "source_DeltaV (v # vs) name =
     (if name = VoltageSource.Name v then Some (Voltage v)
      else if rev name = VoltageSource.Name v then Some (Voltage v)
      else source_DeltaV vs name)"

definition GetElementDeltaV :: "ResistorNetwork \<Rightarrow> string \<Rightarrow> real option" where
  "GetElementDeltaV net name =
     (case resistor_DeltaV (Resistors net) name of
        Some dv \<Rightarrow> Some dv
      | None \<Rightarrow> source_DeltaV (VSources net) name)"

text \<open>
  \<open>GetLoopVoltageDrops\<close>. The segment after node \<open>n\<close> of a loop is named by the two node
  names joined; the last node closes the loop with \<open>Nodes[0] + Nodes[n]\<close>. Here \<open>n\<close>
  ranges over \<open>range(len(Nodes))\<close>, so every read is in range. Adding \<open>None\<close> to the
  running sum raises TypeError.
\<close>

definition segment_name :: "string list \<Rightarrow> nat \<Rightarrow> string" where
  "segment_name ns n =
     (if n = length ns - 1 then ns ! 0 @ ns ! n else ns ! n @ ns ! (n + 1))"

fun loop_DeltaV :: "ResistorNetwork \<Rightarrow> string list \<Rightarrow> nat list \<Rightarrow> real \<Rightarrow> py_error + real" where
  "loop_DeltaV net ns [] loopDeltaV = Inr loopDeltaV"
| "loop_DeltaV net ns (n # rest) loopDeltaV =
     (case GetElementDeltaV net (segment_name ns n) of
        None \<Rightarrow> Inl TypeError
      | Some dv \<Rightarrow> loop_DeltaV net ns rest (loopDeltaV + dv))"

fun loop_voltages :: "ResistorNetwork \<Rightarrow> Loop list \<Rightarrow> real list \<Rightarrow> py_error + real list" where
  "loop_voltages net [] loopVoltages = Inr loopVoltages"
| "loop_voltages net (L # Ls) loopVoltages =
     bind_py (loop_DeltaV net (Nodes L) [0 ..< length (Nodes L)] 0)
       (\<lambda>loopDeltaV. loop_voltages net Ls (loopVoltages @ [loopDeltaV]))"

definition GetLoopVoltageDrops :: "ResistorNetwork \<Rightarrow> py_error + real list" where
  "GetLoopVoltageDrops net = loop_voltages net (Loops net) []"

text \<open>
  \<open>GetKirchoffVals\<close> of Problem\_1\_Test\_2.py. In an assignment Python evaluates the right
  side first, so \<open>i[0]\<close> is read before the resistor is looked up. The method ends with
  \<open>np.zeros_like(i)\<close>. The result is the returned vector with the network as the call
  leaves it. Printing is left out.
\<close>

definition GetKirchoffVals_Test2 ::
  "ResistorNetwork \<Rightarrow> real list \<Rightarrow> py_error + (real list \<times> ResistorNetwork)" where
  "GetKirchoffVals_Test2 net i =
     bind_py (getitem i 0) (\<lambda>v.
     bind_py (set_Current net ''ad'' v) (\<lambda>net.
     bind_py (getitem i 0) (\<lambda>v.
     bind_py (set_Current net ''bc'' v) (\<lambda>net.
     bind_py (getitem i 2) (\<lambda>v.
     bind_py (set_Current net ''cd'' v) (\<lambda>net.
     bind_py (getitem i 1) (\<lambda>v.
     bind_py (set_Current net ''ce'' v) (\<lambda>net.
     bind_py (getitem i 0) (\<lambda>i0.
     bind_py (getitem i 1) (\<lambda>i1.
     bind_py (getitem i 2) (\<lambda>i2.
     let Node_c_Current = 0 + i0 + i1 + (- i2) in
     bind_py (GetLoopVoltageDrops net) (\<lambda>KVL.
     let KVL = KVL @ [Node_c_Current] in
     Inr (replicate (length i) 0, net)))))))))))))"

text \<open>
  \<open>ResistorNetwork2.GetKirchoffVals\<close> of Problem 2.py, which overrides the method above
  (the class is imported from Problem\_1\_Test\_2).
\<close>

definition GetKirchoffVals_Problem2 ::
  "ResistorNetwork \<Rightarrow> real list \<Rightarrow> py_error + (real list \<times> ResistorNetwork)" where
  "GetKirchoffVals_Problem2 net i =
     bind_py (getitem i 0) (\<lambda>v.
     bind_py (set_Current net ''ad'' v) (\<lambda>net.
     bind_py (getitem i 0) (\<lambda>v.
     bind_py (set_Current net ''bc'' v) (\<lambda>net.
     bind_py (getitem i 4) (\<lambda>v.
     bind_py (set_Current net ''parallel_resistor'' v) (\<lambda>net.
     bind_py (getitem i 1) (\<lambda>v.
     bind_py (set_Current net ''ce'' v) (\<lambda>net.
     bind_py (getitem i 0) (\<lambda>i0.
     bind_py (getitem i 1) (\<lambda>i1.
     bind_py (getitem i 2) (\<lambda>i2.
     let Node_c_Current = 0 + i0 + i1 + (- i2) in
     bind_py (GetLoopVoltageDrops net) (\<lambda>KVL.
     let KVL = KVL @ [Node_c_Current] in
     Inr (replicate (length i) 0, net)))))))))))))"

text \<open>
  \<open>ResistorNetwork2.GetKirchoffVals\<close> of HW6\_1\_2\_OOP.py. Its base class is imported from
  a module HW6\_1\_OOP that is not among the sources; Problem 1.py and Problem\_1\_Test\_2.py
  carry that class, and their \<open>GetResistorByName\<close> and \<open>GetLoopVoltageDrops\<close>, which agree,
  stand for the inherited methods: a lookup by name, and one voltage sum for each loop. The
  result array has \<open>len(KVL) + 1\<close> entries, the
  first \<open>len(KVL)\<close> of them overwritten with \<open>KVL\<close>; the index of that loop is always in
  range, so its \<open>except IndexError\<close> branch is never taken.
\<close>

definition GetKirchoffVals_HW6_1_2 ::
  "ResistorNetwork \<Rightarrow> real list \<Rightarrow> py_error + (real list \<times> ResistorNetwork)" where
  "GetKirchoffVals_HW6_1_2 net i =
     bind_py (getitem i 0) (\<lambda>v.
     bind_py (set_Current net ''ad'' v) (\<lambda>net.
     bind_py (getitem i 0) (\<lambda>v.
     bind_py (set_Current net ''bc'' v) (\<lambda>net.
     bind_py (getitem i 2) (\<lambda>v.
     bind_py (set_Current net ''cd'' v) (\<lambda>net.
     bind_py (getitem i 1) (\<lambda>v.
     bind_py (set_Current net ''ce'' v) (\<lambda>net.
     bind_py (getitem i 3) (\<lambda>v.
     bind_py (set_Current net ''df'' v) (\<lambda>net.
     bind_py (getitem i 0) (\<lambda>i0.
     bind_py (getitem i 1) (\<lambda>i1.
     bind_py (getitem i 2) (\<lambda>i2.
     bind_py (getitem i 3) (\<lambda>i3.
     let Node_c_Current = 0 + i0 + i1 + (- i2) + (- i3) in
     bind_py (GetLoopVoltageDrops net) (\<lambda>KVL.
     let KVL = KVL @ [Node_c_Current];
         result = replicate (length KVL + 1) 0;
         result = KVL @ drop (length KVL) result
     in Inr (result, net))))))))))))))))"

text \<open>
  Two networks to run the code on. The first has the four resistors \<open>ad\<close>, \<open>bc\<close>, \<open>cd\<close>,
  \<open>ce\<close> and two sources, with loops \<open>a-b-c-d\<close> and \<open>c-d-e\<close>, every segment of which
  names an element. The second adds the resistors \<open>df\<close> and \<open>parallel_resistor\<close> that
  the overriding classes look up.
\<close>

definition example_network :: ResistorNetwork where
  "example_network =
     \<lparr>Loops = [\<lparr>Nodes = [''a'', ''b'', ''c'', ''d''], Loop.Name = Some ''l1''\<rparr>,
               \<lparr>Nodes = [''c'', ''d'', ''e''], Loop.Name = Some ''l2''\<rparr>],
      Resistors = [\<lparr>Resistance = 2, Current = 0, Resistor.Name = ''ad''\<rparr>,
                   \<lparr>Resistance = 2, Current = 0, Resistor.Name = ''bc''\<rparr>,
                   \<lparr>Resistance = 1, Current = 0, Resistor.Name = ''cd''\<rparr>,
                   \<lparr>Resistance = 4, Current = 0, Resistor.Name = ''ce''\<rparr>],
      VSources = [\<lparr>Voltage = 16, VoltageSource.Name = ''ab'', Type = Some ''ideal''\<rparr>,
                  \<lparr>Voltage = 32, VoltageSource.Name = ''de'', Type = Some ''ideal''\<rparr>]\<rparr>"

definition example_network2 :: ResistorNetwork where
  "example_network2 =
     example_network\<lparr>Resistors := Resistors example_network @
       [\<lparr>Resistance = 5, Current = 0, Resistor.Name = ''df''\<rparr>,
        \<lparr>Resistance = 3, Current = 0, Resistor.Name = ''parallel_resistor''\<rparr>]\<rparr>"

section \<open>Reading a network from a file (Problem 1.py)\<close>

text \<open>
  Strings are byte lists. \<open>lower\<close> and \<open>strip\<close> are \<open>str.lower\<close> and \<open>str.strip\<close> on
  ASCII text, \<open>contains sub s\<close> is \<open>sub in s\<close>, \<open>split_on c s\<close> is \<open>s.split(c)\<close> for a
  one-character separator.
\<close>

definition lower_char :: "char \<Rightarrow> char" where
  "lower_char c =
     (case map_of (zip ''ABCDEFGHIJKLMNOPQRSTUVWXYZ'' ''abcdefghijklmnopqrstuvwxyz'') c of
        Some l \<Rightarrow> l
      | None \<Rightarrow> c)"

definition lower :: "string \<Rightarrow> string" where
  "lower s = map lower_char s"

definition is_space :: "char \<Rightarrow> bool" where
  "is_space c = (c \<in> set [CHR '' '', CHR 0x09, CHR 0x0A, CHR 0x0B, CHR 0x0C, CHR 0x0D,
                           CHR 0x1C, CHR 0x1D, CHR 0x1E, CHR 0x1F])"

definition strip :: "string \<Rightarrow> string" where
  "strip s = rev (dropWhile is_space (rev (dropWhile is_space s)))"

fun starts_with :: "string \<Rightarrow> string \<Rightarrow> bool" where
  "starts_with [] s = True"
| "starts_with (c # cs) [] = False"
| "starts_with (c # cs) (d # ds) = (c = d \<and> starts_with cs ds)"

fun contains :: "string \<Rightarrow> string \<Rightarrow> bool" where
  "contains sub [] = (sub = [])"
| "contains sub (c # cs) = (starts_with sub (c # cs) \<or> contains sub cs)"

fun split_on :: "char \<Rightarrow> string \<Rightarrow> string list" where
  "split_on sep [] = [[]]"
| "split_on sep (c # cs) =
     (if c = sep then [] # split_on sep cs
      else (case split_on sep cs of
              [] \<Rightarrow> [[c]]
            | w # ws \<Rightarrow> (c # w) # ws))"

text \<open>\<open>txt.split('=')[1].strip()\<close>: IndexError when the line has no \<open>=\<close>.\<close>

definition field_value :: "string \<Rightarrow> py_error + string" where
  "field_value txt = bind_py (getitem (split_on CHR ''='' txt) 1) (\<lambda>s. Inr (strip s))"

text \<open>
  \<open>float(s)\<close>. Python's number syntax is not modelled: the conversion is a parameter
  \<open>pf\<close> of the reader, \<open>None\<close> where \<open>float\<close> raises ValueError.
\<close>

definition to_float :: "(string \<Rightarrow> real option) \<Rightarrow> string \<Rightarrow> py_error + real" where
  "to_float pf s = (case pf s of None \<Rightarrow> Inl ValueError | Some x \<Rightarrow> Inr x)"

text \<open>
  \<open>MakeResistor\<close>: the loop tests \<open>N < len(Txt)\<close> before every read. When the keyword
  line is the last line the method returns without appending the resistor.
\<close>

function MakeResistor_loop ::
  "(string \<Rightarrow> real option) \<Rightarrow> string list \<Rightarrow> nat \<Rightarrow> string \<Rightarrow> Resistor \<Rightarrow>
     py_error + (nat \<times> Resistor)" where
  "MakeResistor_loop pf Txt N txt R =
     (if N < length Txt \<and> \<not> contains ''resistor'' txt then
        bind_py (if contains ''name'' txt
                 then bind_py (field_value txt) (\<lambda>s. Inr (R\<lparr>Resistor.Name := s\<rparr>))
                 else Inr R) (\<lambda>R.
        bind_py (if contains ''resistance'' txt
                 then bind_py (field_value txt) (\<lambda>s.
                      bind_py (to_float pf s) (\<lambda>x. Inr (R\<lparr>Resistance := x\<rparr>)))
                 else Inr R) (\<lambda>R.
        MakeResistor_loop pf Txt (N + 1)
          (if N + 1 < length Txt then lower (Txt ! (N + 1)) else txt) R))
      else Inr (N, R))"
  by pat_completeness auto
termination
  by (relation "measure (\<lambda>(pf, Txt, N, txt, R). length Txt - N)") auto

declare MakeResistor_loop.simps [simp del]

definition MakeResistor ::
  "(string \<Rightarrow> real option) \<Rightarrow> nat \<Rightarrow> string list \<Rightarrow> ResistorNetwork \<Rightarrow>
     py_error + (nat \<times> ResistorNetwork)" where
  "MakeResistor pf N Txt net =
     (let R = Resistor_init; N = N + 1 in
      if N < length Txt then
        bind_py (MakeResistor_loop pf Txt N (lower (Txt ! N)) R) (\<lambda>(N, R).
        Inr (N, net\<lparr>Resistors := Resistors net @ [R]\<rparr>))
      else Inr (N, net))"

text \<open>
  \<open>MakeVSource\<close> and \<open>MakeLoop\<close> read \<open>Txt[N]\<close> with no test of \<open>N\<close>: IndexError past
  the last line.
\<close>

function MakeVSource_loop ::
  "(string \<Rightarrow> real option) \<Rightarrow> string list \<Rightarrow> nat \<Rightarrow> string \<Rightarrow> VoltageSource \<Rightarrow>
     py_error + (nat \<times> VoltageSource)" where
  "MakeVSource_loop pf Txt N txt VS =
     (if \<not> contains ''source'' txt then
        bind_py (if contains ''name'' txt
                 then bind_py (field_value txt) (\<lambda>s. Inr (VS\<lparr>VoltageSource.Name := s\<rparr>))
                 else Inr VS) (\<lambda>VS.
        bind_py (if contains ''value'' txt
                 then bind_py (field_value txt) (\<lambda>s.
                      bind_py (to_float pf s) (\<lambda>x. Inr (VS\<lparr>Voltage := x\<rparr>)))
                 else Inr VS) (\<lambda>VS.
        bind_py (if contains ''type'' txt
                 then bind_py (field_value txt) (\<lambda>s. Inr (VS\<lparr>Type := Some s\<rparr>))
                 else Inr VS) (\<lambda>VS.
        if N + 1 < length Txt
        then MakeVSource_loop pf Txt (N + 1) (lower (Txt ! (N + 1))) VS
        else Inl IndexError)))
      else Inr (N, VS))"
  by pat_completeness auto
termination
  by (relation "measure (\<lambda>(pf, Txt, N, txt, VS). length Txt - N)") auto

declare MakeVSource_loop.simps [simp del]

definition MakeVSource ::
  "(string \<Rightarrow> real option) \<Rightarrow> nat \<Rightarrow> string list \<Rightarrow> ResistorNetwork \<Rightarrow>
     py_error + (nat \<times> ResistorNetwork)" where
  "MakeVSource pf N Txt net =
     (let VS = VoltageSource_init; N = N + 1 in
      bind_py (getitem Txt N) (\<lambda>line.
      bind_py (MakeVSource_loop pf Txt N (lower line) VS) (\<lambda>(N, VS).
      Inr (N, net\<lparr>VSources := VSources net @ [VS]\<rparr>))))"

function MakeLoop_loop ::
  "string list \<Rightarrow> nat \<Rightarrow> string \<Rightarrow> Loop \<Rightarrow> py_error + (nat \<times> Loop)" where
  "MakeLoop_loop Txt N txt L =
     (if \<not> contains ''loop'' txt then
        bind_py (if contains ''name'' txt
                 then bind_py (field_value txt) (\<lambda>s. Inr (L\<lparr>Loop.Name := Some s\<rparr>))
                 else Inr L) (\<lambda>L.
        bind_py (if contains ''nodes'' txt
                 then bind_py (field_value (filter (\<lambda>c. c \<noteq> CHR '' '') txt)) (\<lambda>s.
                      Inr (L\<lparr>Nodes := split_on CHR '','' s\<rparr>))
                 else Inr L) (\<lambda>L.
        if N + 1 < length Txt
        then MakeLoop_loop Txt (N + 1) (lower (Txt ! (N + 1))) L
        else Inl IndexError))
      else Inr (N, L))"
  by pat_completeness auto
termination
  by (relation "measure (\<lambda>(Txt, N, txt, L). length Txt - N)") auto

declare MakeLoop_loop.simps [simp del]

definition MakeLoop ::
  "nat \<Rightarrow> string list \<Rightarrow> ResistorNetwork \<Rightarrow> py_error + (nat \<times> ResistorNetwork)" where
  "MakeLoop N Txt net =
     (let L = Loop_init; N = N + 1 in
      bind_py (getitem Txt N) (\<lambda>line.
      bind_py (MakeLoop_loop Txt N (lower line) L) (\<lambda>(N, L).
      Inr (N, net\<lparr>Loops := Loops net @ [L]\<rparr>))))"

text \<open>
  One pass of the \<open>while\<close> loop of \<open>BuildNetworkFromFile\<close>, up to \<open>LineNum += 1\<close>; the
  loop itself, which goes on from the line number the pass returns; and the method on the
  text of the file: the lines are the text split at its newlines, and the three lists of the network
  are emptied first. That the loop terminates is proved below, from the fact that no pass
  moves the line number back.
\<close>

definition read_block ::
  "(string \<Rightarrow> real option) \<Rightarrow> string list \<Rightarrow> nat \<Rightarrow> ResistorNetwork \<Rightarrow>
     py_error + (nat \<times> ResistorNetwork)" where
  "read_block pf FileTxt LineNum net =
     (let lineTxt = strip (lower (FileTxt ! LineNum)) in
      if length lineTxt < 1 then Inr (LineNum, net)
      else if lineTxt ! 0 = CHR ''#'' then Inr (LineNum, net)
      else if contains ''resistor'' lineTxt then MakeResistor pf LineNum FileTxt net
      else if contains ''source'' lineTxt then MakeVSource pf LineNum FileTxt net
      else if contains ''loop'' lineTxt then MakeLoop LineNum FileTxt net
      else Inr (LineNum, net))"

function build_loop ::
  "(string \<Rightarrow> real option) \<Rightarrow> string list \<Rightarrow> nat \<Rightarrow> ResistorNetwork \<Rightarrow>
     py_error + ResistorNetwork" where
  "build_loop pf FileTxt LineNum net =
     (if LineNum < length FileTxt then
        (case read_block pf FileTxt LineNum net of
           Inl e \<Rightarrow> Inl e
         | Inr (LineNum', net') \<Rightarrow> build_loop pf FileTxt (LineNum' + 1) net')
      else Inr net)"
  by pat_completeness auto

definition BuildNetworkFromFile ::
  "(string \<Rightarrow> real option) \<Rightarrow> string \<Rightarrow> ResistorNetwork \<Rightarrow> py_error + ResistorNetwork" where
  "BuildNetworkFromFile pf text net =
     (let FileTxt = split_on (CHR 0x0A) text in
      build_loop pf FileTxt 0 (net\<lparr>Resistors := [], VSources := [], Loops := []\<rparr>))"

text \<open>
  Three files that end inside a block: the closing keyword line is missing.
\<close>

definition truncated_source_file :: string where
  "truncated_source_file = ''<Source>'' @ [CHR 0x0A] @ ''Name = ab''"

definition truncated_loop_file :: string where
  "truncated_loop_file = ''<Loop>'' @ [CHR 0x0A] @ ''Name = L1''"

definition truncated_resistor_file :: string where
  "truncated_resistor_file = ''<Resistor>'' @ [CHR 0x0A] @ ''Name = ad''"

section \<open>The pipe network (Problem 2.py, HW6\_2\_OOP.py)\<close>

text \<open>
  The classes \<open>Fluid\<close>, \<open>Pipe\<close>, \<open>Node\<close>, \<open>Loop\<close> and \<open>PipeNetwork\<close>. The attributes
  \<open>length\<close>, \<open>r\<close>, \<open>d\<close>, \<open>A\<close> and \<open>Q\<close> of a pipe carry their unit in the field name
  (\<open>length_m\<close>, \<open>r_m\<close>, \<open>d_m\<close>, \<open>A_m2\<close>, \<open>Q_Ls\<close>), and the class \<open>Loop\<close> of these files is
  the record \<open>PipeLoop\<close>.

  Nodes, loops and the network hold their pipes by reference, and the residual function
  writes flow rates into pipes that the nodes and loops then read. So pipes live in a heap,
  a map from addresses to pipes, and the lists hold addresses. An address with no pipe
  stands for a \<open>None\<close> in the list (what \<open>getPipe\<close> returns for an unknown name); reading
  an attribute of it raises AttributeError.
\<close>

record Fluid =
  mu :: real
  rho :: real
  nu :: real

record Pipe =
  startNode :: string
  endNode :: string
  length_m :: real
  r_m :: real
  fluid :: Fluid
  d_m :: real
  relrough :: real
  A_m2 :: real
  Q_Ls :: real
  vel :: real
  reynolds :: real

record Node =
  name :: string
  pipes :: "nat list"
  extFlow :: real

record PipeLoop =
  name :: string
  pipes :: "nat list"

record PipeNetwork =
  loops :: "PipeLoop list"
  nodes :: "Node list"
  Fluid :: Fluid
  pipes :: "nat list"

text \<open>
  Two library functions are parameters of the model. \<open>fsolve f x0\<close> is the first
  component of \<open>scipy.optimize.fsolve(f, x0)\<close> for a function of one unknown.
  \<open>normalvariate m s\<close> is \<open>random.normalvariate(m, s)\<close>, the draw from the normal
  distribution with mean \<open>m\<close> and standard deviation \<open>s\<close>; it reads and advances the state
  \<open>'g\<close> of the random number generator.
\<close>

record 'g library =
  fsolve :: "(real \<Rightarrow> real) \<Rightarrow> real \<Rightarrow> real"
  normalvariate :: "real \<Rightarrow> real \<Rightarrow> 'g \<Rightarrow> real \<times> 'g"

record 'g world =
  heap :: "nat \<Rightarrow> Pipe option"
  rng :: 'g

definition Fluid_init :: "real \<Rightarrow> real \<Rightarrow> py_error + Fluid" where
  "Fluid_init m r = bind_py (truediv m r) (\<lambda>n. Inr \<lparr>mu = m, rho = r, nu = n\<rparr>)"

subsection \<open>Pipe\<close>

text \<open>\<open>Pipe.V\<close> stores and returns \<open>Q / A\<close>.\<close>

definition Pipe_V :: "Pipe \<Rightarrow> py_error + (real \<times> Pipe)" where
  "Pipe_V p = bind_py (truediv (Q_Ls p) (A_m2 p)) (\<lambda>v. Inr (v, p\<lparr>vel := v\<rparr>))"

text \<open>
  \<open>Pipe.Re\<close>. Problem 2.py computes the velocity afresh with \<open>self.V()\<close>; HW6\_2\_OOP.py
  reads the stored \<open>self.vel\<close>.
\<close>

definition Re_Problem2 :: "Pipe \<Rightarrow> py_error + (real \<times> Pipe)" where
  "Re_Problem2 p =
     bind_py (Pipe_V p) (\<lambda>(v, p).
     bind_py (truediv (rho (fluid p) * v * d_m p) (mu (fluid p))) (\<lambda>re.
     Inr (re, p\<lparr>reynolds := re\<rparr>)))"

definition Re_OOP :: "Pipe \<Rightarrow> py_error + (real \<times> Pipe)" where
  "Re_OOP p =
     bind_py (truediv (rho (fluid p) * vel p * d_m p) (mu (fluid p))) (\<lambda>re.
     Inr (re, p\<lparr>reynolds := re\<rparr>))"

text \<open>
  The constructor, with \<open>min\<close> and \<open>max\<close> of the two node names in the order of Python
  strings: lexicographic by character code, a proper prefix before the longer string. The
  attributes \<open>vel\<close> and \<open>reynolds\<close> do not exist before \<open>V\<close> and \<open>Re\<close>
  assign them; the zeros that stand for them are never read.
\<close>

definition Pipe_new :: "string \<Rightarrow> string \<Rightarrow> real \<Rightarrow> real \<Rightarrow> real \<Rightarrow> Fluid \<Rightarrow> py_error + Pipe" where
  "Pipe_new Start End L D r fl =
     (let d = D / 1000.0 in
      bind_py (truediv r d) (\<lambda>rr.
      Inr \<lparr>startNode = min Start End, endNode = max Start End, length_m = L, r_m = r,
           fluid = fl, d_m = d, relrough = rr, A_m2 = pi / 4.0 * d ^ 2, Q_Ls = 10,
           vel = 0, reynolds = 0\<rparr>))"

definition Pipe_init_Problem2 ::
  "string \<Rightarrow> string \<Rightarrow> real \<Rightarrow> real \<Rightarrow> real \<Rightarrow> Fluid \<Rightarrow> py_error + Pipe" where
  "Pipe_init_Problem2 Start End L D r fl =
     bind_py (Pipe_new Start End L D r fl) (\<lambda>p.
     bind_py (Pipe_V p) (\<lambda>(v, p).
     let p = p\<lparr>vel := v\<rparr> in
     bind_py (Re_Problem2 p) (\<lambda>(re, p).
     Inr (p\<lparr>reynolds := re\<rparr>))))"

definition Pipe_init_OOP ::
  "string \<Rightarrow> string \<Rightarrow> real \<Rightarrow> real \<Rightarrow> real \<Rightarrow> Fluid \<Rightarrow> py_error + Pipe" where
  "Pipe_init_OOP Start End L D r fl =
     bind_py (Pipe_new Start End L D r fl) (\<lambda>p.
     bind_py (Pipe_V p) (\<lambda>(v, p).
     let p = p\<lparr>vel := v\<rparr> in
     bind_py (Re_OOP p) (\<lambda>(re, p).
     Inr (p\<lparr>reynolds := re\<rparr>))))"

text \<open>
  \<open>FrictionFactor\<close>. \<open>CB\<close> is the residual of the Colebrook equation handed to
  \<open>fsolve\<close>, with \<open>f ** 0.5\<close> as the square root. \<open>friction_regimes\<close> is the method after
  its first line \<open>Re = self.Re()\<close>, the same in both files.
\<close>

definition CB :: "real \<Rightarrow> real \<Rightarrow> real \<Rightarrow> real" where
  "CB rr re f = 1 / sqrt f + 2.0 * log 10 (rr / 3.7 + 2.51 / (re * sqrt f))"

definition lam :: "real \<Rightarrow> py_error + real" where
  "lam re = truediv 64 re"

definition friction_regimes ::
  "'g library \<Rightarrow> real \<Rightarrow> Pipe \<Rightarrow> 'g \<Rightarrow> py_error + (real \<times> Pipe \<times> 'g)" where
  "friction_regimes lib re p g =
     (let rr = relrough p in
      if re \<ge> 4000 then Inr (fsolve lib (CB rr re) 0.01, p, g)
      else if re \<le> 2000 then bind_py (lam re) (\<lambda>f. Inr (f, p, g))
      else
        let CBff = fsolve lib (CB rr re) 0.01 in
        bind_py (lam re) (\<lambda>Lamff.
        let mean = Lamff + ((re - 2000) / (4000 - 2000)) * (CBff - Lamff);
            sig = 0.2 * mean;
            (f, g) = normalvariate lib mean sig g
        in Inr (f, p, g)))"

definition FrictionFactor_Problem2 ::
  "'g library \<Rightarrow> Pipe \<Rightarrow> 'g \<Rightarrow> py_error + (real \<times> Pipe \<times> 'g)" where
  "FrictionFactor_Problem2 lib p g =
     bind_py (Re_Problem2 p) (\<lambda>(re, p). friction_regimes lib re p g)"

definition FrictionFactor_OOP ::
  "'g library \<Rightarrow> Pipe \<Rightarrow> 'g \<Rightarrow> py_error + (real \<times> Pipe \<times> 'g)" where
  "FrictionFactor_OOP lib p g =
     bind_py (Re_OOP p) (\<lambda>(re, p). friction_regimes lib re p g)"

text \<open>
  \<open>frictionHeadLoss\<close>: \<open>4 * ff * self.length * self.V() ** 2 / (2 * g * self.d)\<close> in
  Problem 2.py, \<open>(ff * self.length * (self.vel ** 2)) / (2 * g * self.d)\<close> in
  HW6\_2\_OOP.py, with \<open>g = 9.81\<close>.
\<close>

definition frictionHeadLoss_Problem2 ::
  "'g library \<Rightarrow> Pipe \<Rightarrow> 'g \<Rightarrow> py_error + (real \<times> Pipe \<times> 'g)" where
  "frictionHeadLoss_Problem2 lib p g =
     bind_py (FrictionFactor_Problem2 lib p g) (\<lambda>(ff, p, g).
     bind_py (Pipe_V p) (\<lambda>(v, p).
     bind_py (truediv (4 * ff * length_m p * v ^ 2) (2 * 9.81 * d_m p)) (\<lambda>hl.
     Inr (hl, p, g))))"

definition frictionHeadLoss_OOP ::
  "'g library \<Rightarrow> Pipe \<Rightarrow> 'g \<Rightarrow> py_error + (real \<times> Pipe \<times> 'g)" where
  "frictionHeadLoss_OOP lib p g =
     bind_py (FrictionFactor_OOP lib p g) (\<lambda>(ff, p, g).
     bind_py (truediv (ff * length_m p * (vel p) ^ 2) (2 * 9.81 * d_m p)) (\<lambda>hl.
     Inr (hl, p, g)))"

text \<open>\<open>getFlowHeadLoss(s)\<close>: the two signs are computed before the head loss.\<close>

definition getFlowHeadLoss_Problem2 ::
  "'g library \<Rightarrow> Pipe \<Rightarrow> string \<Rightarrow> 'g \<Rightarrow> py_error + (real \<times> Pipe \<times> 'g)" where
  "getFlowHeadLoss_Problem2 lib p s g =
     (let nTraverse = (if s = startNode p then 1 else - 1);
          nFlow = (if Q_Ls p \<ge> 0 then 1 else - 1)
      in bind_py (frictionHeadLoss_Problem2 lib p g) (\<lambda>(hl, p, g).
         Inr (nTraverse * nFlow * hl, p, g)))"

definition getFlowHeadLoss_OOP ::
  "'g library \<Rightarrow> Pipe \<Rightarrow> string \<Rightarrow> 'g \<Rightarrow> py_error + (real \<times> Pipe \<times> 'g)" where
  "getFlowHeadLoss_OOP lib p s g =
     (let nTraverse = (if s = startNode p then 1 else - 1);
          nFlow = (if Q_Ls p \<ge> 0 then 1 else - 1)
      in bind_py (frictionHeadLoss_OOP lib p g) (\<lambda>(hl, p, g).
         Inr (nTraverse * nFlow * hl, p, g)))"

definition getFlowIntoNode :: "Pipe \<Rightarrow> string \<Rightarrow> real" where
  "getFlowIntoNode p n = (if n = startNode p then - Q_Ls p else Q_Ls p)"

subsection \<open>Node and Loop\<close>

text \<open>Reading the pipe at an address.\<close>

definition deref :: "(nat \<Rightarrow> Pipe option) \<Rightarrow> nat \<Rightarrow> py_error + Pipe" where
  "deref h a = (case h a of None \<Rightarrow> Inl AttributeError | Some p \<Rightarrow> Inr p)"

fun net_flow :: "(nat \<Rightarrow> Pipe option) \<Rightarrow> string \<Rightarrow> nat list \<Rightarrow> real \<Rightarrow> py_error + real" where
  "net_flow h n [] Qtot = Inr Qtot"
| "net_flow h n (a # as) Qtot =
     bind_py (deref h a) (\<lambda>p. net_flow h n as (Qtot + getFlowIntoNode p n))"

definition getNetFlowRate :: "(nat \<Rightarrow> Pipe option) \<Rightarrow> Node \<Rightarrow> py_error + real" where
  "getNetFlowRate h n = net_flow h (Node.name n) (Node.pipes n) (extFlow n)"

text \<open>
  The \<open>for\<close> loop of \<open>getLoopHeadLoss\<close>, the same in both files: \<open>gfl\<close> is the file's
  \<open>getFlowHeadLoss\<close>, \<open>s\<close> the node the traversal stands at (the variable \<open>startNode\<close>).
  The pipe is written back to the heap as the call leaves it.
\<close>

fun traverse ::
  "(Pipe \<Rightarrow> string \<Rightarrow> 'g \<Rightarrow> py_error + (real \<times> Pipe \<times> 'g)) \<Rightarrow> nat list \<Rightarrow> real \<Rightarrow> string \<Rightarrow>
     'g world \<Rightarrow> py_error + (real \<times> 'g world)" where
  "traverse gfl [] deltaP s w = Inr (deltaP, w)"
| "traverse gfl (a # as) deltaP s w =
     bind_py (deref (heap w) a) (\<lambda>p.
     bind_py (gfl p s (rng w)) (\<lambda>(phl, p, g).
     traverse gfl as (deltaP + phl)
       (if s \<noteq> endNode p then endNode p else startNode p)
       (w\<lparr>heap := (heap w)(a \<mapsto> p), rng := g\<rparr>)))"

definition getLoopHeadLoss_Problem2 ::
  "'g library \<Rightarrow> PipeLoop \<Rightarrow> 'g world \<Rightarrow> py_error + (real \<times> 'g world)" where
  "getLoopHeadLoss_Problem2 lib L w =
     bind_py (getitem (PipeLoop.pipes L) 0) (\<lambda>a.
     bind_py (deref (heap w) a) (\<lambda>p0.
     traverse (getFlowHeadLoss_Problem2 lib) (PipeLoop.pipes L) 0 (startNode p0) w))"

definition getLoopHeadLoss_OOP ::
  "'g library \<Rightarrow> PipeLoop \<Rightarrow> 'g world \<Rightarrow> py_error + (real \<times> 'g world)" where
  "getLoopHeadLoss_OOP lib L w =
     bind_py (getitem (PipeLoop.pipes L) 0) (\<lambda>a.
     bind_py (deref (heap w) a) (\<lambda>p0.
     bind_py (traverse (getFlowHeadLoss_OOP lib) (PipeLoop.pipes L) 0 (startNode p0) w)
       (\<lambda>(deltaP, w). Inr (\<bar>deltaP\<bar>, w))))"

subsection \<open>PipeNetwork\<close>

fun getNodeFlowRates :: "(nat \<Rightarrow> Pipe option) \<Rightarrow> Node list \<Rightarrow> py_error + real list" where
  "getNodeFlowRates h [] = Inr []"
| "getNodeFlowRates h (n # ns) =
     bind_py (getNetFlowRate h n) (\<lambda>q.
     bind_py (getNodeFlowRates h ns) (\<lambda>qs. Inr (q # qs)))"

fun getLoopHeadLosses_OOP ::
  "'g library \<Rightarrow> PipeLoop list \<Rightarrow> 'g world \<Rightarrow> py_error + (real list \<times> 'g world)" where
  "getLoopHeadLosses_OOP lib [] w = Inr ([], w)"
| "getLoopHeadLosses_OOP lib (l # ls) w =
     bind_py (getLoopHeadLoss_OOP lib l w) (\<lambda>(x, w).
     bind_py (getLoopHeadLosses_OOP lib ls w) (\<lambda>(xs, w). Inr (x # xs, w)))"

text \<open>
  The loop \<open>self.pipes[i].Q = q[i]\<close> over \<open>range(len(self.pipes))\<close>: the right side is
  read first, IndexError when \<open>q\<close> is too short.
\<close>

fun set_flows :: "nat list \<Rightarrow> nat \<Rightarrow> real list \<Rightarrow> (nat \<Rightarrow> Pipe option) \<Rightarrow>
    py_error + (nat \<Rightarrow> Pipe option)" where
  "set_flows [] i q h = Inr h"
| "set_flows (a # as) i q h =
     bind_py (getitem q i) (\<lambda>v.
     bind_py (deref h a) (\<lambda>p.
     set_flows as (i + 1) q (h(a \<mapsto> p\<lparr>Q_Ls := v\<rparr>))))"

text \<open>
  The callback \<open>fn\<close> that \<open>findFlowRates\<close> of HW6\_2\_OOP.py defines, and the method
  itself: it computes \<open>N\<close> and \<open>Q0\<close>, defines \<open>fn\<close>, and ends. A Python function that ends
  without \<open>return\<close> returns \<open>None\<close>.
\<close>

definition fn_OOP ::
  "'g library \<Rightarrow> PipeNetwork \<Rightarrow> real list \<Rightarrow> 'g world \<Rightarrow> py_error + (real list \<times> 'g world)" where
  "fn_OOP lib net q w =
     bind_py (set_flows (PipeNetwork.pipes net) 0 q (heap w)) (\<lambda>h.
     let w = w\<lparr>heap := h\<rparr> in
     bind_py (getNodeFlowRates (heap w) (nodes net)) (\<lambda>node_flow_rates.
     bind_py (getLoopHeadLosses_OOP lib (loops net) w) (\<lambda>(loop_head_losses, w).
     Inr (node_flow_rates @ loop_head_losses, w))))"

definition findFlowRates_OOP ::
  "'g library \<Rightarrow> PipeNetwork \<Rightarrow> 'g world \<Rightarrow> real list option \<times> 'g world" where
  "findFlowRates_OOP lib net w =
     (let N = length (nodes net) + length (loops net);
          Q0 = replicate (length (PipeNetwork.pipes net)) (10 :: real);
          fn = fn_OOP lib net
      in (None, w))"

text \<open>
  Pipes to run the code on: 200 mm wide, between \<open>a\<close> and \<open>b\<close>, carrying a fluid of
  viscosity \<open>m\<close> and density 1000, as \<open>Pipe('a', 'b', L, 200, 0.00025, Fluid(m, 1000))\<close>
  builds them. At the flow rate 10 that the constructor sets, the Reynolds number is
  \<open>200000 / (m * pi)\<close>: laminar for \<open>m = 100\<close>, transitional for \<open>m = 20\<close>, turbulent
  for water, \<open>m = 0.00089\<close>.
\<close>

definition example_fluid :: "real \<Rightarrow> Fluid" where
  "example_fluid m = \<lparr>mu = m, rho = 1000, nu = m / 1000\<rparr>"

definition example_pipe :: "real \<Rightarrow> real \<Rightarrow> Pipe" where
  "example_pipe m L =
     \<lparr>startNode = ''a'', endNode = ''b'', length_m = L, r_m = 0.00025, fluid = example_fluid m,
      d_m = 0.2, relrough = 0.00125, A_m2 = pi / 100, Q_Ls = 10, vel = 1000 / pi,
      reynolds = 200000 / (m * pi)\<rparr>"

text \<open>
  A network of two such pipes side by side, 100 m and 200 m long, at addresses 0 and 1,
  with its two nodes and its one loop. The library stub serves runs that stay laminar, where
  neither library function is called.
\<close>

definition two_pipes :: "'g \<Rightarrow> 'g world" where
  "two_pipes g = \<lparr>heap = [0 \<mapsto> example_pipe 100 100, 1 \<mapsto> example_pipe 100 200], rng = g\<rparr>"

definition loop_ab :: PipeLoop where
  "loop_ab = \<lparr>PipeLoop.name = ''A'', PipeLoop.pipes = [0, 1]\<rparr>"

definition network_ab :: PipeNetwork where
  "network_ab =
     \<lparr>loops = [loop_ab],
      nodes = [\<lparr>Node.name = ''a'', Node.pipes = [0, 1], extFlow = 20\<rparr>,
               \<lparr>Node.name = ''b'', Node.pipes = [0, 1], extFlow = - 20\<rparr>],
      Fluid = example_fluid 100,
      PipeNetwork.pipes = [0, 1]\<rparr>"

definition no_library :: "unit library" where
  "no_library = \<lparr>fsolve = (\<lambda>f x0. x0), normalvariate = (\<lambda>m s g. (m, g))\<rparr>"

section \<open>Invariants used in the proofs\<close>

text \<open>
  What the assignments of currents leave in place: the loops, and which names resolve.
\<close>

definition same_topology :: "ResistorNetwork \<Rightarrow> ResistorNetwork \<Rightarrow> bool" where
  "same_topology net net' =
     (Loops net' = Loops net \<and>
      (\<forall>x. (GetElementDeltaV net' x = None) = (GetElementDeltaV net x = None)) \<and>
      (\<forall>x. (GetResistorByName net' x = None) = (GetResistorByName net x = None)))"

section \<open>Properties of the resistor network\<close>

lemma bind_py_Inr: "bind_py m f = Inr y \<Longrightarrow> \<exists>x. m = Inr x \<and> f x = Inr y"
  by (cases m) (simp_all add: bind_py_def)

lemma bind_py_simps [simp]: "bind_py (Inr x) f = f x" "bind_py (Inl e) f = Inl e"
  by (simp_all add: bind_py_def)

subsection \<open>Lookups by name\<close>

lemma resistor_index_None:
  "(resistor_index rs nm k = None) = (nm \<notin> Resistor.Name ` set rs)"
  by (induction rs arbitrary: k) auto

lemma resistor_index_Some:
  "resistor_index rs nm k = Some j \<Longrightarrow>
     k \<le> j \<and> j - k < length rs \<and> Resistor.Name (rs ! (j - k)) = nm"
proof (induction rs arbitrary: k)
  case Nil
  then show ?case by simp
next
  case (Cons r rs)
  show ?case
  proof (cases "Resistor.Name r = nm")
    case True
    with Cons.prems show ?thesis by simp
  next
    case False
    with Cons.prems have "resistor_index rs nm (Suc k) = Some j" by simp
    from Cons.IH[OF this] show ?thesis by (auto simp: Suc_diff_Suc nth_Cons')
  qed
qed

lemma resistor_DeltaV_None:
  "(resistor_DeltaV rs nm = None) =
     (nm \<notin> Resistor.Name ` set rs \<and> rev nm \<notin> Resistor.Name ` set rs)"
  by (induction rs) auto

lemma source_DeltaV_None:
  "(source_DeltaV vs nm = None) =
     (nm \<notin> VoltageSource.Name ` set vs \<and> rev nm \<notin> VoltageSource.Name ` set vs)"
  by (induction vs) auto

text \<open>Whether a segment name resolves depends on the names in the network only.\<close>

lemma GetElementDeltaV_None:
  "(GetElementDeltaV net nm = None) =
     (nm \<notin> Resistor.Name ` set (Resistors net) \<and> rev nm \<notin> Resistor.Name ` set (Resistors net) \<and>
      nm \<notin> VoltageSource.Name ` set (VSources net) \<and>
      rev nm \<notin> VoltageSource.Name ` set (VSources net))"
  unfolding GetElementDeltaV_def
  using resistor_DeltaV_None[of "Resistors net" nm] source_DeltaV_None[of "VSources net" nm]
  by (cases "resistor_DeltaV (Resistors net) nm") auto

subsection \<open>Assigning currents and summing around loops\<close>


lemma set_Current_Inr:
  assumes "set_Current net nm v = Inr net'"
  shows "map Resistor.Name (Resistors net') = map Resistor.Name (Resistors net)"
    and "VSources net' = VSources net" and "Loops net' = Loops net"
proof -
  from assms obtain k where k: "GetResistorByName net nm = Some k"
    and net': "net' = net\<lparr>Resistors := (Resistors net)[k := (Resistors net ! k)\<lparr>Current := v\<rparr>]\<rparr>"
    by (auto simp: set_Current_def split: option.splits)
  from k have "k < length (Resistors net)"
    using resistor_index_Some[of "Resistors net" nm 0 k] by (simp add: GetResistorByName_def)
  then show "map Resistor.Name (Resistors net') = map Resistor.Name (Resistors net)"
    by (simp add: net' map_update list_update_same_conv)
  show "VSources net' = VSources net" "Loops net' = Loops net" by (simp_all add: net')
qed

lemma set_Current_resolves:
  assumes "set_Current net nm v = Inr net'"
  shows "(GetElementDeltaV net' x = None) = (GetElementDeltaV net x = None)"
    and "(GetResistorByName net' x = None) = (GetResistorByName net x = None)"
proof -
  from set_Current_Inr(1)[OF assms]
  have "Resistor.Name ` set (Resistors net') = Resistor.Name ` set (Resistors net)"
    by (metis set_map)
  then show "(GetElementDeltaV net' x = None) = (GetElementDeltaV net x = None)"
    "(GetResistorByName net' x = None) = (GetResistorByName net x = None)"
    by (simp_all add: GetElementDeltaV_None GetResistorByName_def resistor_index_None set_Current_Inr(2)[OF assms])
qed

lemma set_Current_ok:
  "GetResistorByName net nm \<noteq> None \<Longrightarrow> \<exists>net'. set_Current net nm v = Inr net'"
  by (cases "GetResistorByName net nm") (auto simp: set_Current_def)

lemma loop_DeltaV_ok:
  "(\<forall>n\<in>set idx. GetElementDeltaV net (segment_name ns n) \<noteq> None) \<Longrightarrow>
   \<exists>x. loop_DeltaV net ns idx acc = Inr x"
  by (induction idx arbitrary: acc) (auto split: option.splits)

lemma loop_voltages_ok:
  "(\<forall>L\<in>set Ls. \<forall>n<length (Nodes L). GetElementDeltaV net (segment_name (Nodes L) n) \<noteq> None) \<Longrightarrow>
   \<exists>xs. loop_voltages net Ls acc = Inr xs"
proof (induction Ls arbitrary: acc)
  case Nil then show ?case by simp
next
  case (Cons L Ls)
  then have "\<forall>n\<in>set [0 ..< length (Nodes L)]. GetElementDeltaV net (segment_name (Nodes L) n) \<noteq> None"
    by simp
  from loop_DeltaV_ok[OF this] obtain x where "loop_DeltaV net (Nodes L) [0 ..< length (Nodes L)] 0 = Inr x"
    by blast
  moreover from Cons have "\<exists>xs. loop_voltages net Ls (acc @ [x]) = Inr xs" by simp
  ultimately show ?case by simp
qed

lemma loop_voltages_length:
  "loop_voltages net Ls acc = Inr xs \<Longrightarrow> length xs = length acc + length Ls"
proof (induction Ls arbitrary: acc)
  case Nil then show ?case by simp
next
  case (Cons L Ls)
  then show ?case by (fastforce simp: bind_py_def split: sum.splits)
qed

lemma GetLoopVoltageDrops_length:
  "GetLoopVoltageDrops net = Inr xs \<Longrightarrow> length xs = length (Loops net)"
  using loop_voltages_length[of net "Loops net" "[]" xs] by (simp add: GetLoopVoltageDrops_def)

text \<open>A successful assignment leaves in place everything the later steps depend on.\<close>

lemma set_Current_step:
  assumes "same_topology net n" "GetResistorByName net nm \<noteq> None"
  shows "\<exists>n'. set_Current n nm v = Inr n' \<and> same_topology net n'"
proof -
  from assms have "GetResistorByName n nm \<noteq> None" by (simp add: same_topology_def)
  from set_Current_ok[OF this] obtain n' where n': "set_Current n nm v = Inr n'" by blast
  with assms(1) have "same_topology net n'"
    by (simp add: same_topology_def set_Current_resolves[OF n'] set_Current_Inr(3)[OF n'])
  with n' show ?thesis by blast
qed

lemma GetLoopVoltageDrops_ok:
  assumes "same_topology net n"
    and "\<forall>L\<in>set (Loops net). \<forall>k<length (Nodes L). GetElementDeltaV net (segment_name (Nodes L) k) \<noteq> None"
  shows "\<exists>xs. GetLoopVoltageDrops n = Inr xs"
  unfolding GetLoopVoltageDrops_def
  using assms by (intro loop_voltages_ok) (simp add: same_topology_def)

lemma GetKirchoffVals_Test2_returns:
  assumes len: "3 \<le> length i"
    and r: "GetResistorByName net ''ad'' \<noteq> None" "GetResistorByName net ''bc'' \<noteq> None"
           "GetResistorByName net ''cd'' \<noteq> None" "GetResistorByName net ''ce'' \<noteq> None"
    and l: "\<forall>L\<in>set (Loops net). \<forall>k<length (Nodes L). GetElementDeltaV net (segment_name (Nodes L) k) \<noteq> None"
  shows "\<exists>net'. GetKirchoffVals_Test2 net i = Inr (replicate (length i) 0, net')"
proof -
  have t0: "same_topology net net" by (simp add: same_topology_def)
  from set_Current_step[OF t0 r(1)] obtain n1 where
    n1: "set_Current net ''ad'' (i ! 0) = Inr n1" "same_topology net n1" by blast
  from set_Current_step[OF n1(2) r(2)] obtain n2 where
    n2: "set_Current n1 ''bc'' (i ! 0) = Inr n2" "same_topology net n2" by blast
  from set_Current_step[OF n2(2) r(3)] obtain n3 where
    n3: "set_Current n2 ''cd'' (i ! 2) = Inr n3" "same_topology net n3" by blast
  from set_Current_step[OF n3(2) r(4)] obtain n4 where
    n4: "set_Current n3 ''ce'' (i ! 1) = Inr n4" "same_topology net n4" by blast
  from GetLoopVoltageDrops_ok[OF n4(2) l] obtain KVL where "GetLoopVoltageDrops n4 = Inr KVL" by blast
  moreover from len have "getitem i 0 = Inr (i ! 0)" "getitem i 1 = Inr (i ! 1)" "getitem i 2 = Inr (i ! 2)"
    by (auto simp add: getitem_def)
  ultimately show ?thesis using n1 n2 n3 n4
    by (simp add: GetKirchoffVals_Test2_def)
qed

lemma GetKirchoffVals_Problem2_returns:
  assumes len: "5 \<le> length i"
    and r: "GetResistorByName net ''ad'' \<noteq> None" "GetResistorByName net ''bc'' \<noteq> None"
           "GetResistorByName net ''parallel_resistor'' \<noteq> None" "GetResistorByName net ''ce'' \<noteq> None"
    and l: "\<forall>L\<in>set (Loops net). \<forall>k<length (Nodes L). GetElementDeltaV net (segment_name (Nodes L) k) \<noteq> None"
  shows "\<exists>net'. GetKirchoffVals_Problem2 net i = Inr (replicate (length i) 0, net')"
proof -
  have t0: "same_topology net net" by (simp add: same_topology_def)
  from set_Current_step[OF t0 r(1)] obtain n1 where
    n1: "set_Current net ''ad'' (i ! 0) = Inr n1" "same_topology net n1" by blast
  from set_Current_step[OF n1(2) r(2)] obtain n2 where
    n2: "set_Current n1 ''bc'' (i ! 0) = Inr n2" "same_topology net n2" by blast
  from set_Current_step[OF n2(2) r(3)] obtain n3 where
    n3: "set_Current n2 ''parallel_resistor'' (i ! 4) = Inr n3" "same_topology net n3" by blast
  from set_Current_step[OF n3(2) r(4)] obtain n4 where
    n4: "set_Current n3 ''ce'' (i ! 1) = Inr n4" "same_topology net n4" by blast
  from GetLoopVoltageDrops_ok[OF n4(2) l] obtain KVL where "GetLoopVoltageDrops n4 = Inr KVL" by blast
  moreover from len have "getitem i 0 = Inr (i ! 0)" "getitem i 1 = Inr (i ! 1)" "getitem i 2 = Inr (i ! 2)"
    "getitem i 4 = Inr (i ! 4)"
    by (auto simp add: getitem_def)
  ultimately show ?thesis using n1 n2 n3 n4
    by (simp add: GetKirchoffVals_Problem2_def)
qed

lemma example_network2_resolves:
  "\<forall>L\<in>set (Loops example_network2). \<forall>k<length (Nodes L).
      GetElementDeltaV example_network2 (segment_name (Nodes L) k) \<noteq> None"
  by (simp add: example_network2_def example_network_def GetElementDeltaV_def segment_name_def
      less_Suc_eq all_conj_distrib)


lemma GetKirchoffVals_Test2_zeros:
  assumes "GetKirchoffVals_Test2 net i = Inr (r, net')"
  shows "r = replicate (length i) 0"
  using assms unfolding GetKirchoffVals_Test2_def Let_def
  by (auto dest!: bind_py_Inr)

lemma GetKirchoffVals_Problem2_zeros:
  assumes "GetKirchoffVals_Problem2 net i = Inr (r, net')"
  shows "r = replicate (length i) 0"
  using assms unfolding GetKirchoffVals_Problem2_def Let_def
  by (auto dest!: bind_py_Inr)

lemma GetKirchoffVals_HW6_1_2_length:
  assumes "GetKirchoffVals_HW6_1_2 net i = Inr (r, net')"
  shows "length r = length (Loops net) + 2"
proof -
  from assms obtain n1 n2 n3 n4 n5 v1 v2 v3 v4 v5 KVL where
    s: "set_Current net ''ad'' v1 = Inr n1" "set_Current n1 ''bc'' v2 = Inr n2"
       "set_Current n2 ''cd'' v3 = Inr n3" "set_Current n3 ''ce'' v4 = Inr n4"
       "set_Current n4 ''df'' v5 = Inr n5"
    and k: "GetLoopVoltageDrops n5 = Inr KVL"
    and r: "length r = length KVL + 2"
    unfolding GetKirchoffVals_HW6_1_2_def Let_def
    by (auto dest!: bind_py_Inr)
  from s have "Loops n5 = Loops net" by (simp add: set_Current_Inr(3))
  with k r show ?thesis by (simp add: GetLoopVoltageDrops_length)
qed

subsection \<open>The sign of a voltage source\<close>

text \<open>
  Claim C4. A voltage source contributes its voltage when the queried segment name is the
  source's name, and the negated voltage when the queried name is the source's name
  spelled backwards. The code returns \<open>v.Voltage\<close> in both branches: on the example
  network, whose source \<open>ab\<close> has 16 V, the lookup of \<open>ba\<close> gives 16, as the lookup of
  \<open>ab\<close> does, and not -16.
\<close>

theorem GetElementDeltaV_reversed_source_not_negated:
  "GetElementDeltaV example_network ''ab'' = Some 16 \<and>
   GetElementDeltaV example_network ''ba'' = Some 16"
  by (simp add: GetElementDeltaV_def example_network_def)

subsection \<open>Names that match no element\<close>

text \<open>
  Claim C8 as stated: a lookup of a name that matches no element fails with an error that
  names it. The code has no such error: on the example network \<open>GetResistorByName\<close> and
  \<open>GetElementDeltaV\<close> both return \<open>None\<close> for the name \<open>zz\<close>.
\<close>

theorem lookup_unknown_name_counterexample:
  "GetResistorByName example_network ''zz'' = None \<and>
   GetElementDeltaV example_network ''zz'' = None"
  by (simp add: GetElementDeltaV_def GetResistorByName_def example_network_def)

text \<open>
  Claim C8 as amended. For a name that no resistor carries, \<open>GetResistorByName\<close> returns
  \<open>None\<close>, and the assignment of a current through it raises AttributeError. For a name
  that matches no resistor and no source, forwards or backwards, \<open>GetElementDeltaV\<close>
  returns \<open>None\<close>, and the loop sum that adds it raises TypeError. Neither error carries
  the name.
\<close>

theorem lookup_unknown_name_returns_None:
  "(nm \<notin> Resistor.Name ` set (Resistors net) \<longrightarrow>
      GetResistorByName net nm = None \<and> set_Current net nm v = Inl AttributeError) \<and>
   (nm \<notin> Resistor.Name ` set (Resistors net) \<and> rev nm \<notin> Resistor.Name ` set (Resistors net) \<and>
    nm \<notin> VoltageSource.Name ` set (VSources net) \<and>
    rev nm \<notin> VoltageSource.Name ` set (VSources net) \<longrightarrow>
      GetElementDeltaV net nm = None \<and>
      (\<forall>ns n rest acc. segment_name ns n = nm \<longrightarrow>
         loop_DeltaV net ns (n # rest) acc = Inl TypeError))"
proof -
  have "GetResistorByName net nm = None \<and> set_Current net nm v = Inl AttributeError"
    if "nm \<notin> Resistor.Name ` set (Resistors net)"
  proof -
    from that have "GetResistorByName net nm = None"
      by (simp add: GetResistorByName_def resistor_index_None)
    then show ?thesis by (simp add: set_Current_def)
  qed
  moreover have "GetElementDeltaV net nm = None \<and>
      (\<forall>ns n rest acc. segment_name ns n = nm \<longrightarrow>
         loop_DeltaV net ns (n # rest) acc = Inl TypeError)"
    if "nm \<notin> Resistor.Name ` set (Resistors net) \<and> rev nm \<notin> Resistor.Name ` set (Resistors net) \<and>
      nm \<notin> VoltageSource.Name ` set (VSources net) \<and>
      rev nm \<notin> VoltageSource.Name ` set (VSources net)"
  proof -
    from that have "GetElementDeltaV net nm = None"
      by (simp add: GetElementDeltaV_None)
    then show ?thesis by auto
  qed
  ultimately show ?thesis by blast
qed

theorem lookup_unknown_name_returns_None_witness:
  "GetResistorByName example_network ''zz'' = None \<and>
   set_Current example_network ''zz'' 1 = Inl AttributeError \<and>
   GetElementDeltaV example_network ''zz'' = None \<and>
   loop_DeltaV example_network [''z'', ''z''] [0, 1] 0 = Inl TypeError"
proof -
  have "segment_name [''z'', ''z''] 0 = ''zz''" by (simp add: segment_name_def)
  then show ?thesis
    using lookup_unknown_name_returns_None[of "''zz''" example_network 1]
    by (simp add: example_network_def)
qed

subsection \<open>The residual that is always zero\<close>

text \<open>
  Claim C5 as stated: for every current vector the overriding \<open>GetKirchoffVals\<close> returns
  zeros. On the four-resistor example network, with the initial guess of four zeros that
  \<open>AnalyzeCircuit\<close> builds for it, the method of Problem 2.py reads \<open>i[4]\<close> and raises
  IndexError instead.
\<close>

theorem GetKirchoffVals_zero_counterexample:
  "GetKirchoffVals_Problem2 example_network [0, 0, 0, 0] = Inl IndexError"
  by (simp add: GetKirchoffVals_Problem2_def example_network_def getitem_def
      set_Current_def GetResistorByName_def)

text \<open>
  Claim C5 as amended. Whenever either method returns, it returns the all-zero vector of
  the length of \<open>i\<close>. It does return when every segment of every loop names an element,
  the four resistors it assigns to exist, and \<open>i\<close> has at least three entries
  (Problem\_1\_Test\_2.py) or five (Problem 2.py). The resistances, voltages and currents
  stored in the network play no part.
\<close>

theorem GetKirchoffVals_zero_vector:
  "(\<forall>r net'. GetKirchoffVals_Test2 net i = Inr (r, net') \<longrightarrow> r = replicate (length i) 0) \<and>
   (\<forall>r net'. GetKirchoffVals_Problem2 net i = Inr (r, net') \<longrightarrow> r = replicate (length i) 0) \<and>
   ((\<forall>L\<in>set (Loops net). \<forall>k<length (Nodes L).
        GetElementDeltaV net (segment_name (Nodes L) k) \<noteq> None) \<longrightarrow>
    (3 \<le> length i \<and> GetResistorByName net ''ad'' \<noteq> None \<and> GetResistorByName net ''bc'' \<noteq> None \<and>
     GetResistorByName net ''cd'' \<noteq> None \<and> GetResistorByName net ''ce'' \<noteq> None \<longrightarrow>
       (\<exists>net'. GetKirchoffVals_Test2 net i = Inr (replicate (length i) 0, net'))) \<and>
    (5 \<le> length i \<and> GetResistorByName net ''ad'' \<noteq> None \<and> GetResistorByName net ''bc'' \<noteq> None \<and>
     GetResistorByName net ''parallel_resistor'' \<noteq> None \<and> GetResistorByName net ''ce'' \<noteq> None \<longrightarrow>
       (\<exists>net'. GetKirchoffVals_Problem2 net i = Inr (replicate (length i) 0, net'))))"
  using GetKirchoffVals_Test2_zeros[of net i] GetKirchoffVals_Problem2_zeros[of net i]
    GetKirchoffVals_Test2_returns[of i net] GetKirchoffVals_Problem2_returns[of i net]
  by blast

theorem GetKirchoffVals_zero_vector_witness:
  "(\<exists>net'. GetKirchoffVals_Test2 example_network2 [1, 2, 3, 4, 5] = Inr ([0, 0, 0, 0, 0], net')) \<and>
   (\<exists>net'. GetKirchoffVals_Problem2 example_network2 [1, 2, 3, 4, 5] = Inr ([0, 0, 0, 0, 0], net'))"
proof -
  have "GetResistorByName example_network2 ''ad'' \<noteq> None"
    "GetResistorByName example_network2 ''bc'' \<noteq> None"
    "GetResistorByName example_network2 ''cd'' \<noteq> None"
    "GetResistorByName example_network2 ''ce'' \<noteq> None"
    "GetResistorByName example_network2 ''parallel_resistor'' \<noteq> None"
    by (simp_all add: GetResistorByName_def example_network2_def example_network_def)
  then show ?thesis
    using GetKirchoffVals_zero_vector[of example_network2 "[1, 2, 3, 4, 5]"]
      example_network2_resolves
    by (simp add: numeral_eq_Suc)
qed

section \<open>Properties of the file reader\<close>

subsection \<open>No block reader moves the line number back\<close>

lemma MakeResistor_loop_ge:
  "MakeResistor_loop pf Txt N tx R = Inr (N', R') \<Longrightarrow> N \<le> N'"
proof (induction pf Txt N tx R rule: MakeResistor_loop.induct)
  case (1 pf Txt N tx R)
  show ?case
  proof (cases "N < length Txt \<and> \<not> contains ''resistor'' tx")
    case True
    with "1.prems" obtain R2 where
      "MakeResistor_loop pf Txt (N + 1)
          (if N + 1 < length Txt then lower (Txt ! (N + 1)) else tx) R2 = Inr (N', R')"
      by (subst (asm) MakeResistor_loop.simps) (auto dest!: bind_py_Inr)
    from "1.IH"[OF True this] show ?thesis by simp
  next
    case False
    with "1.prems" show ?thesis by (subst (asm) MakeResistor_loop.simps) auto
  qed
qed

lemma MakeVSource_loop_ge:
  "MakeVSource_loop pf Txt N tx VS = Inr (N', VS') \<Longrightarrow> N \<le> N'"
proof (induction pf Txt N tx VS rule: MakeVSource_loop.induct)
  case (1 pf Txt N tx VS)
  show ?case
  proof (cases "contains ''source'' tx")
    case False
    with "1.prems" obtain VS2 where "N + 1 < length Txt"
      "MakeVSource_loop pf Txt (N + 1) (lower (Txt ! (N + 1))) VS2 = Inr (N', VS')"
      by (subst (asm) MakeVSource_loop.simps) (auto dest!: bind_py_Inr split: if_splits)
    from "1.IH"[OF False this] show ?thesis by simp
  next
    case True
    with "1.prems" show ?thesis by (subst (asm) MakeVSource_loop.simps) auto
  qed
qed

lemma MakeLoop_loop_ge:
  "MakeLoop_loop Txt N tx L = Inr (N', L') \<Longrightarrow> N \<le> N'"
proof (induction Txt N tx L rule: MakeLoop_loop.induct)
  case (1 Txt N tx L)
  show ?case
  proof (cases "contains ''loop'' tx")
    case False
    with "1.prems" obtain L2 where "N + 1 < length Txt"
      "MakeLoop_loop Txt (N + 1) (lower (Txt ! (N + 1))) L2 = Inr (N', L')"
      by (subst (asm) MakeLoop_loop.simps) (auto dest!: bind_py_Inr split: if_splits)
    from "1.IH"[OF False this] show ?thesis by simp
  next
    case True
    with "1.prems" show ?thesis by (subst (asm) MakeLoop_loop.simps) auto
  qed
qed

lemma read_block_ge:
  assumes "read_block pf FileTxt LineNum net = Inr (LineNum', net')"
  shows "LineNum \<le> LineNum'"
proof -
  have r: "MakeResistor pf LineNum FileTxt net = Inr (LineNum', net') \<Longrightarrow> LineNum \<le> LineNum'"
    using MakeResistor_loop_ge[of pf FileTxt "LineNum + 1"]
    by (fastforce simp: MakeResistor_def Let_def dest!: bind_py_Inr split: if_splits)
  have v: "MakeVSource pf LineNum FileTxt net = Inr (LineNum', net') \<Longrightarrow> LineNum \<le> LineNum'"
    using MakeVSource_loop_ge[of pf FileTxt "LineNum + 1"]
    by (fastforce simp: MakeVSource_def Let_def dest!: bind_py_Inr)
  have l: "MakeLoop LineNum FileTxt net = Inr (LineNum', net') \<Longrightarrow> LineNum \<le> LineNum'"
    using MakeLoop_loop_ge[of FileTxt "LineNum + 1"]
    by (fastforce simp: MakeLoop_def Let_def dest!: bind_py_Inr)
  from assms r v l show ?thesis
    by (auto simp: read_block_def Let_def split: if_splits)
qed

termination build_loop
proof (relation "measure (\<lambda>(pf, FileTxt, LineNum, net). length FileTxt - LineNum)")
  show "wf (measure (\<lambda>(pf, FileTxt, LineNum, net). length FileTxt - LineNum))" by simp
next
  fix pf FileTxt LineNum net x2 x y
  assume "LineNum < length FileTxt" "read_block pf FileTxt LineNum net = Inr x2" "(x, y) = x2"
  then have "LineNum \<le> x" using read_block_ge[of pf FileTxt LineNum net x y] by simp
  with \<open>LineNum < length FileTxt\<close>
  show "((pf, FileTxt, x + 1, y), pf, FileTxt, LineNum, net)
          \<in> measure (\<lambda>(pf, FileTxt, LineNum, net). length FileTxt - LineNum)"
    by simp
qed

declare build_loop.simps [simp del]

lemma lower_simps [simp]: "lower [] = []" "lower (c # cs) = lower_char c # lower cs"
  by (simp_all add: lower_def)

subsection \<open>Files that end inside a block\<close>

text \<open>
  Claim C9. On a file whose last source or loop block is never closed,
  \<open>BuildNetworkFromFile\<close> stops at the end of the input without an exception, and
  \<open>MakeVSource\<close> and \<open>MakeLoop\<close> never read past the last line. The code reads
  \<open>Txt[N]\<close> in both with no test of \<open>N\<close>: on a two-line file that opens a source block, or
  a loop block, and ends, the call raises IndexError, whatever \<open>float\<close> does and whatever
  network it starts from. \<open>MakeResistor\<close> does test \<open>N < len(Txt)\<close>: the same file with
  a resistor block is read to its end and gives the resistor.
\<close>

theorem BuildNetworkFromFile_truncated_block:
  "BuildNetworkFromFile pf truncated_source_file net = Inl IndexError \<and>
   BuildNetworkFromFile pf truncated_loop_file net = Inl IndexError \<and>
   BuildNetworkFromFile pf truncated_resistor_file net =
     Inr (net\<lparr>Resistors := [\<lparr>Resistance = 1, Current = 0, Resistor.Name = ''ad''\<rparr>],
               VSources := [], Loops := []\<rparr>)"
  by (simp add: BuildNetworkFromFile_def truncated_source_file_def truncated_loop_file_def
      truncated_resistor_file_def build_loop.simps read_block_def strip_def is_space_def
      lower_char_def MakeVSource_def MakeVSource_loop.simps MakeLoop_def MakeLoop_loop.simps
      MakeResistor_def MakeResistor_loop.simps getitem_def field_value_def
      VoltageSource_init_def Loop_init_def Resistor_init_def)

section \<open>Properties of the pipe network\<close>

lemma truediv_simps [simp]:
  "b \<noteq> 0 \<Longrightarrow> truediv a b = Inr (a / b)" "truediv a 0 = Inl ZeroDivisionError"
  by (simp_all add: truediv_def)

subsection \<open>The example pipes\<close>


lemma example_fluid_constructed: "m \<noteq> 0 \<Longrightarrow> Fluid_init m 1000 = Inr (example_fluid m)"
  by (simp add: Fluid_init_def example_fluid_def)

lemma example_pipe_constructed:
  assumes "m \<noteq> 0"
  shows "Pipe_init_OOP ''a'' ''b'' L 200 0.00025 (example_fluid m) = Inr (example_pipe m L)"
    and "Pipe_init_Problem2 ''a'' ''b'' L 200 0.00025 (example_fluid m) = Inr (example_pipe m L)"
  using assms
  by (simp_all add: Pipe_init_OOP_def Pipe_init_Problem2_def Pipe_new_def Pipe_V_def Re_OOP_def
      Re_Problem2_def example_pipe_def example_fluid_def power2_eq_square)

lemma example_pipe_fields [simp]:
  "length_m (example_pipe m L) = L" "d_m (example_pipe m L) = 0.2"
  "vel (example_pipe m L) = 1000 / pi" "startNode (example_pipe m L) = ''a''"
  "endNode (example_pipe m L) = ''b''" "Q_Ls (example_pipe m L) = 10"
  "relrough (example_pipe m L) = 0.00125"
  by (simp_all add: example_pipe_def)

lemma example_pipe_V: "Pipe_V (example_pipe m L) = Inr (1000 / pi, example_pipe m L)"
  by (simp add: Pipe_V_def example_pipe_def)

lemma example_pipe_Re:
  assumes "m \<noteq> 0"
  shows "Re_OOP (example_pipe m L) = Inr (200000 / (m * pi), example_pipe m L)"
    and "Re_Problem2 (example_pipe m L) = Inr (200000 / (m * pi), example_pipe m L)"
  using assms
  by (simp_all add: Re_OOP_def Re_Problem2_def Pipe_V_def example_pipe_def example_fluid_def)

lemma laminar_100: "200000 / (100 * pi) \<le> (2000::real)" "\<not> 4000 \<le> 200000 / (100 * pi)"
  "200000 / (100 * pi) \<noteq> 0"
  using pi_ge_two by (simp_all add: field_simps)



lemma laminar_FrictionFactor:
  "FrictionFactor_OOP lib (example_pipe 100 L) g = Inr (64 / (200000 / (100 * pi)), example_pipe 100 L, g)"
  "FrictionFactor_Problem2 lib (example_pipe 100 L) g =
     Inr (64 / (200000 / (100 * pi)), example_pipe 100 L, g)"
  using laminar_100
  by (simp_all add: FrictionFactor_OOP_def FrictionFactor_Problem2_def example_pipe_Re
      friction_regimes_def lam_def)

lemma laminar_frictionHeadLoss_OOP:
  "frictionHeadLoss_OOP lib (example_pipe 100 L) g =
     Inr (64 / (200000 / (100 * pi)) * L * (1000 / pi) ^ 2 / (2 * 9.81 * 0.2), example_pipe 100 L, g)"
  by (simp add: frictionHeadLoss_OOP_def laminar_FrictionFactor)

lemma laminar_frictionHeadLoss_Problem2:
  "frictionHeadLoss_Problem2 lib (example_pipe 100 L) g =
     Inr (4 * (64 / (200000 / (100 * pi))) * L * (1000 / pi) ^ 2 / (2 * 9.81 * 0.2),
          example_pipe 100 L, g)"
  by (simp add: frictionHeadLoss_Problem2_def laminar_FrictionFactor example_pipe_V)

subsection \<open>Friction factor\<close>










subsection \<open>Head loss of a pipe\<close>

text \<open>
  Claim C1. \<open>frictionHeadLoss\<close> returns \<open>f * L * v^2 / (2 * g * d)\<close> with \<open>g = 9.81\<close>,
  where \<open>f\<close> is what \<open>FrictionFactor\<close> returns and \<open>v\<close> the velocity. Problem 2.py
  multiplies by a further 4. For the laminar example pipe of 100 m, \<open>FrictionFactor\<close>
  returns \<open>f = 64 / (2000 / pi)\<close> and \<open>V\<close> returns \<open>v = 1000 / pi\<close>; \<open>frictionHeadLoss\<close> of
  Problem 2.py returns \<open>4 * f * 100 * v^2 / (2 * 9.81 * 0.2)\<close>, which is not
  \<open>f * 100 * v^2 / (2 * 9.81 * 0.2)\<close>, the value that HW6\_2\_OOP.py returns for the same
  pipe.
\<close>

theorem frictionHeadLoss_Problem2_four_times:
  "Pipe_init_Problem2 ''a'' ''b'' 100 200 0.00025 (example_fluid 100) = Inr (example_pipe 100 100) \<and>
   FrictionFactor_Problem2 lib (example_pipe 100 100) g =
     Inr (64 / (2000 / pi), example_pipe 100 100, g) \<and>
   Pipe_V (example_pipe 100 100) = Inr (1000 / pi, example_pipe 100 100) \<and>
   frictionHeadLoss_Problem2 lib (example_pipe 100 100) g =
     Inr (4 * (64 / (2000 / pi)) * 100 * (1000 / pi) ^ 2 / (2 * 9.81 * 0.2), example_pipe 100 100, g) \<and>
   4 * (64 / (2000 / pi)) * 100 * (1000 / pi) ^ 2 / (2 * 9.81 * 0.2)
     \<noteq> 64 / (2000 / pi) * 100 * (1000 / pi) ^ 2 / (2 * 9.81 * 0.2) \<and>
   frictionHeadLoss_OOP lib (example_pipe 100 100) g =
     Inr (64 / (2000 / pi) * 100 * (1000 / pi) ^ 2 / (2 * 9.81 * 0.2), example_pipe 100 100, g)"
proof -
  have "Pipe_init_Problem2 ''a'' ''b'' 100 200 0.00025 (example_fluid 100) = Inr (example_pipe 100 100)"
    by (rule example_pipe_constructed) simp
  then show ?thesis
    by (simp add: laminar_FrictionFactor example_pipe_V laminar_frictionHeadLoss_Problem2
        laminar_frictionHeadLoss_OOP)
qed

subsection \<open>Head loss around a loop\<close>

lemma laminar_getFlowHeadLoss_OOP:
  "getFlowHeadLoss_OOP lib (example_pipe 100 L) s g =
     Inr ((if s = ''a'' then 1 else - 1) * 1 *
            (64 / (200000 / (100 * pi)) * L * (1000 / pi) ^ 2 / (2 * 9.81 * 0.2)),
          example_pipe 100 L, g)"
  by (simp add: getFlowHeadLoss_OOP_def laminar_frictionHeadLoss_OOP)

lemma laminar_getFlowHeadLoss_Problem2:
  "getFlowHeadLoss_Problem2 lib (example_pipe 100 L) s g =
     Inr ((if s = ''a'' then 1 else - 1) * 1 *
            (4 * (64 / (200000 / (100 * pi))) * L * (1000 / pi) ^ 2 / (2 * 9.81 * 0.2)),
          example_pipe 100 L, g)"
  by (simp add: getFlowHeadLoss_Problem2_def laminar_frictionHeadLoss_Problem2)

lemma two_pipes_heap [simp]:
  "heap (two_pipes g) 0 = Some (example_pipe 100 100)"
  "heap (two_pipes g) (Suc 0) = Some (example_pipe 100 200)"
  "rng (two_pipes g) = g"
  by (simp_all add: two_pipes_def)

lemma two_pipes_unchanged [simp]:
  "(two_pipes g)\<lparr>heap := (heap (two_pipes g))(0 \<mapsto> example_pipe 100 100), rng := g\<rparr> = two_pipes g"
  "(two_pipes g)\<lparr>heap := (heap (two_pipes g))(Suc 0 \<mapsto> example_pipe 100 200), rng := g\<rparr> = two_pipes g"
  "(two_pipes g)\<lparr>heap := heap (two_pipes g)\<rparr> = two_pipes g"
  "(two_pipes g)\<lparr>heap := (heap (two_pipes g))(0 \<mapsto> example_pipe 100 100,
      Suc 0 \<mapsto> example_pipe 100 200), rng := g\<rparr> = two_pipes g"
  by (auto simp: two_pipes_def fun_eq_iff)

lemma hl_value:
  "64 / (200000 / (100 * pi)) * L * (1000 / pi) ^ 2 / (2 * 9.81 * 0.2) = 8000000 * L / (981 * pi)"
  by (simp add: field_simps power2_eq_square)

lemma traverse_two_pipes_OOP:
  "traverse (getFlowHeadLoss_OOP lib) (PipeLoop.pipes loop_ab) 0 ''a'' (two_pipes g) =
     Inr (- (800000000 / (981 * pi)), two_pipes g)"
  by (simp add: loop_ab_def deref_def laminar_getFlowHeadLoss_OOP hl_value field_simps
      power2_eq_square)

lemma traverse_two_pipes_Problem2:
  "traverse (getFlowHeadLoss_Problem2 lib) (PipeLoop.pipes loop_ab) 0 ''a'' (two_pipes g) =
     Inr (- (3200000000 / (981 * pi)), two_pipes g)"
  by (simp add: loop_ab_def deref_def laminar_getFlowHeadLoss_Problem2 field_simps
      power2_eq_square)

lemma loop_ab_first: "getitem (PipeLoop.pipes loop_ab) 0 = Inr 0"
  by (simp add: loop_ab_def getitem_def)

lemma getLoopHeadLoss_two_pipes:
  "getLoopHeadLoss_OOP lib loop_ab (two_pipes g) = Inr (800000000 / (981 * pi), two_pipes g)"
  "getLoopHeadLoss_Problem2 lib loop_ab (two_pipes g) = Inr (- (3200000000 / (981 * pi)), two_pipes g)"
  by (simp_all add: getLoopHeadLoss_OOP_def getLoopHeadLoss_Problem2_def loop_ab_first
      deref_def traverse_two_pipes_OOP traverse_two_pipes_Problem2)

text \<open>
  Claim C3. \<open>getLoopHeadLoss\<close> returns the signed sum of the traversal that starts at
  the first pipe's \<open>startNode\<close>, adds each pipe's \<open>getFlowHeadLoss\<close> at the current node
  and moves on to the pipe's far node. HW6\_2\_OOP.py returns \<open>abs(deltaP)\<close>. On the loop of
  the two example pipes the traversal, with the \<open>getFlowHeadLoss\<close> of that file, sums to
  \<open>- 800000000 / (981 * pi)\<close>, which is negative; \<open>getLoopHeadLoss\<close> of HW6\_2\_OOP.py
  returns \<open>800000000 / (981 * pi)\<close>. \<open>getLoopHeadLoss\<close> of Problem 2.py keeps the sign of
  its sum.
\<close>

theorem getLoopHeadLoss_OOP_drops_sign:
  "Pipe_init_OOP ''a'' ''b'' 100 200 0.00025 (example_fluid 100) = Inr (example_pipe 100 100) \<and>
   Pipe_init_OOP ''a'' ''b'' 200 200 0.00025 (example_fluid 100) = Inr (example_pipe 100 200) \<and>
   traverse (getFlowHeadLoss_OOP lib) (PipeLoop.pipes loop_ab) 0 ''a'' (two_pipes g) =
     Inr (- (800000000 / (981 * pi)), two_pipes g) \<and>
   getLoopHeadLoss_OOP lib loop_ab (two_pipes g) = Inr (800000000 / (981 * pi), two_pipes g) \<and>
   getLoopHeadLoss_Problem2 lib loop_ab (two_pipes g) =
     Inr (- (3200000000 / (981 * pi)), two_pipes g) \<and>
   - (800000000 / (981 * pi)) < 0"
proof -
  have "Pipe_init_OOP ''a'' ''b'' 100 200 0.00025 (example_fluid 100) = Inr (example_pipe 100 100)"
    "Pipe_init_OOP ''a'' ''b'' 200 200 0.00025 (example_fluid 100) = Inr (example_pipe 100 200)"
    by (rule example_pipe_constructed, simp)+
  then show ?thesis
    by (simp add: traverse_two_pipes_OOP getLoopHeadLoss_two_pipes)
qed

subsection \<open>Orientation of a pipe\<close>

lemma Pipe_new_nodes:
  "Pipe_new Start End L D r fl = Inr p \<Longrightarrow> startNode p = min Start End \<and> endNode p = max Start End"
  by (auto simp: Pipe_new_def Let_def dest!: bind_py_Inr)

lemma Pipe_V_nodes:
  "Pipe_V p = Inr (v, p') \<Longrightarrow> startNode p' = startNode p \<and> endNode p' = endNode p"
  by (auto simp: Pipe_V_def dest!: bind_py_Inr)

lemma Re_Problem2_nodes:
  "Re_Problem2 p = Inr (re, p') \<Longrightarrow> startNode p' = startNode p \<and> endNode p' = endNode p"
  by (auto simp: Re_Problem2_def dest!: bind_py_Inr Pipe_V_nodes)

lemma Re_OOP_nodes:
  "Re_OOP p = Inr (re, p') \<Longrightarrow> startNode p' = startNode p \<and> endNode p' = endNode p"
  by (auto simp: Re_OOP_def dest!: bind_py_Inr)

lemma friction_regimes_pipe:
  "friction_regimes lib re p g = Inr (f, p', g') \<Longrightarrow> p' = p"
  by (auto simp: friction_regimes_def Let_def split: if_splits prod.splits dest!: bind_py_Inr)

lemma FrictionFactor_Problem2_nodes:
  "FrictionFactor_Problem2 lib p g = Inr (f, p', g') \<Longrightarrow>
     startNode p' = startNode p \<and> endNode p' = endNode p"
  by (auto simp: FrictionFactor_Problem2_def dest!: bind_py_Inr friction_regimes_pipe Re_Problem2_nodes)

lemma FrictionFactor_OOP_nodes:
  "FrictionFactor_OOP lib p g = Inr (f, p', g') \<Longrightarrow>
     startNode p' = startNode p \<and> endNode p' = endNode p"
  by (auto simp: FrictionFactor_OOP_def dest!: bind_py_Inr friction_regimes_pipe Re_OOP_nodes)

lemma frictionHeadLoss_Problem2_nodes:
  "frictionHeadLoss_Problem2 lib p g = Inr (hl, p', g') \<Longrightarrow>
     startNode p' = startNode p \<and> endNode p' = endNode p"
  by (auto simp: frictionHeadLoss_Problem2_def
      dest!: bind_py_Inr FrictionFactor_Problem2_nodes Pipe_V_nodes)

lemma frictionHeadLoss_OOP_nodes:
  "frictionHeadLoss_OOP lib p g = Inr (hl, p', g') \<Longrightarrow>
     startNode p' = startNode p \<and> endNode p' = endNode p"
  by (auto simp: frictionHeadLoss_OOP_def dest!: bind_py_Inr FrictionFactor_OOP_nodes)

lemma getFlowHeadLoss_Problem2_nodes:
  "getFlowHeadLoss_Problem2 lib p s g = Inr (hl, p', g') \<Longrightarrow>
     startNode p' = startNode p \<and> endNode p' = endNode p"
  by (auto simp: getFlowHeadLoss_Problem2_def Let_def dest!: bind_py_Inr frictionHeadLoss_Problem2_nodes)

lemma getFlowHeadLoss_OOP_nodes:
  "getFlowHeadLoss_OOP lib p s g = Inr (hl, p', g') \<Longrightarrow>
     startNode p' = startNode p \<and> endNode p' = endNode p"
  by (auto simp: getFlowHeadLoss_OOP_def Let_def dest!: bind_py_Inr frictionHeadLoss_OOP_nodes)

lemma Pipe_init_Problem2_nodes:
  "Pipe_init_Problem2 Start End L D r fl = Inr p \<Longrightarrow>
     startNode p = min Start End \<and> endNode p = max Start End"
  by (auto simp: Pipe_init_Problem2_def Let_def
      dest!: bind_py_Inr Pipe_new_nodes Pipe_V_nodes Re_Problem2_nodes)

lemma Pipe_init_OOP_nodes:
  "Pipe_init_OOP Start End L D r fl = Inr p \<Longrightarrow>
     startNode p = min Start End \<and> endNode p = max Start End"
  by (auto simp: Pipe_init_OOP_def Let_def
      dest!: bind_py_Inr Pipe_new_nodes Pipe_V_nodes Re_OOP_nodes)

lemma min_max_strings:
  fixes Start End :: string
  shows "min Start End \<le> max Start End" "Start \<noteq> End \<Longrightarrow> min Start End < max Start End"
  by (auto simp: min_def max_def)
text \<open>
  Claim C7 as stated: every constructed pipe has \<open>startNode < endNode\<close>. The constructor
  takes \<open>min\<close> and \<open>max\<close> of the two names and accepts equal names: \<open>Pipe('a', 'a')\<close> with
  water is built, in both files, with \<open>startNode = endNode = 'a'\<close>.
\<close>

theorem Pipe_same_node_counterexample:
  "Pipe_init_Problem2 ''a'' ''a'' 100 200 0.00025 (example_fluid 0.00089) =
     Inr ((example_pipe 0.00089 100)\<lparr>endNode := ''a''\<rparr>) \<and>
   Pipe_init_OOP ''a'' ''a'' 100 200 0.00025 (example_fluid 0.00089) =
     Inr ((example_pipe 0.00089 100)\<lparr>endNode := ''a''\<rparr>) \<and>
   \<not> startNode ((example_pipe 0.00089 100)\<lparr>endNode := ''a''\<rparr>)
       < endNode ((example_pipe 0.00089 100)\<lparr>endNode := ''a''\<rparr>)"
  by (simp add: Pipe_init_OOP_def Pipe_init_Problem2_def Pipe_new_def Pipe_V_def Re_OOP_def
      Re_Problem2_def example_pipe_def example_fluid_def power2_eq_square)

text \<open>
  Claim C7 as amended. A constructed pipe has \<open>startNode \<le> endNode\<close>, and
  \<open>startNode < endNode\<close> when the two names given differ, in either order. \<open>V\<close>, \<open>Re\<close>,
  \<open>FrictionFactor\<close>, \<open>frictionHeadLoss\<close> and \<open>getFlowHeadLoss\<close> of both files, and the
  assignment of a flow rate \<open>Q\<close>, leave both names as they are.
\<close>

theorem Pipe_orientation:
  "(Pipe_init_Problem2 Start End L D r fl = Inr p \<longrightarrow>
      startNode p \<le> endNode p \<and> (Start \<noteq> End \<longrightarrow> startNode p < endNode p)) \<and>
   (Pipe_init_OOP Start End L D r fl = Inr p \<longrightarrow>
      startNode p \<le> endNode p \<and> (Start \<noteq> End \<longrightarrow> startNode p < endNode p)) \<and>
   (\<forall>x p'. Pipe_V p = Inr (x, p') \<longrightarrow> startNode p' = startNode p \<and> endNode p' = endNode p) \<and>
   (\<forall>x p'. Re_Problem2 p = Inr (x, p') \<longrightarrow> startNode p' = startNode p \<and> endNode p' = endNode p) \<and>
   (\<forall>x p'. Re_OOP p = Inr (x, p') \<longrightarrow> startNode p' = startNode p \<and> endNode p' = endNode p) \<and>
   (\<forall>x p' g'. FrictionFactor_Problem2 lib p g = Inr (x, p', g') \<longrightarrow>
      startNode p' = startNode p \<and> endNode p' = endNode p) \<and>
   (\<forall>x p' g'. FrictionFactor_OOP lib p g = Inr (x, p', g') \<longrightarrow>
      startNode p' = startNode p \<and> endNode p' = endNode p) \<and>
   (\<forall>x p' g'. frictionHeadLoss_Problem2 lib p g = Inr (x, p', g') \<longrightarrow>
      startNode p' = startNode p \<and> endNode p' = endNode p) \<and>
   (\<forall>x p' g'. frictionHeadLoss_OOP lib p g = Inr (x, p', g') \<longrightarrow>
      startNode p' = startNode p \<and> endNode p' = endNode p) \<and>
   (\<forall>x p' g'. getFlowHeadLoss_Problem2 lib p s g = Inr (x, p', g') \<longrightarrow>
      startNode p' = startNode p \<and> endNode p' = endNode p) \<and>
   (\<forall>x p' g'. getFlowHeadLoss_OOP lib p s g = Inr (x, p', g') \<longrightarrow>
      startNode p' = startNode p \<and> endNode p' = endNode p) \<and>
   startNode (p\<lparr>Q_Ls := q\<rparr>) = startNode p \<and> endNode (p\<lparr>Q_Ls := q\<rparr>) = endNode p"
proof -
  have a: "startNode p \<le> endNode p \<and> (Start \<noteq> End \<longrightarrow> startNode p < endNode p)"
    if "Pipe_init_Problem2 Start End L D r fl = Inr p"
    using Pipe_init_Problem2_nodes[OF that] min_max_strings[of Start End] by simp
  have b: "startNode p \<le> endNode p \<and> (Start \<noteq> End \<longrightarrow> startNode p < endNode p)"
    if "Pipe_init_OOP Start End L D r fl = Inr p"
    using Pipe_init_OOP_nodes[OF that] min_max_strings[of Start End] by simp
  have c1: "Pipe_init_Problem2 Start End L D r fl = Inr p \<longrightarrow>
      startNode p \<le> endNode p \<and> (Start \<noteq> End \<longrightarrow> startNode p < endNode p)"
    using a by blast
  have c2: "Pipe_init_OOP Start End L D r fl = Inr p \<longrightarrow>
      startNode p \<le> endNode p \<and> (Start \<noteq> End \<longrightarrow> startNode p < endNode p)"
    using b by blast
  have c3: "\<forall>x p'. Pipe_V p = Inr (x, p') \<longrightarrow> startNode p' = startNode p \<and> endNode p' = endNode p"
    using Pipe_V_nodes[of p] by blast
  have c4: "\<forall>x p'. Re_Problem2 p = Inr (x, p') \<longrightarrow> startNode p' = startNode p \<and> endNode p' = endNode p"
    using Re_Problem2_nodes[of p] by blast
  have c5: "\<forall>x p'. Re_OOP p = Inr (x, p') \<longrightarrow> startNode p' = startNode p \<and> endNode p' = endNode p"
    using Re_OOP_nodes[of p] by blast
  have c6: "\<forall>x p' g'. FrictionFactor_Problem2 lib p g = Inr (x, p', g') \<longrightarrow>
      startNode p' = startNode p \<and> endNode p' = endNode p"
    using FrictionFactor_Problem2_nodes[of lib p g] by blast
  have c7: "\<forall>x p' g'. FrictionFactor_OOP lib p g = Inr (x, p', g') \<longrightarrow>
      startNode p' = startNode p \<and> endNode p' = endNode p"
    using FrictionFactor_OOP_nodes[of lib p g] by blast
  have c8: "\<forall>x p' g'. frictionHeadLoss_Problem2 lib p g = Inr (x, p', g') \<longrightarrow>
      startNode p' = startNode p \<and> endNode p' = endNode p"
    using frictionHeadLoss_Problem2_nodes[of lib p g] by blast
  have c9: "\<forall>x p' g'. frictionHeadLoss_OOP lib p g = Inr (x, p', g') \<longrightarrow>
      startNode p' = startNode p \<and> endNode p' = endNode p"
    using frictionHeadLoss_OOP_nodes[of lib p g] by blast
  have c10: "\<forall>x p' g'. getFlowHeadLoss_Problem2 lib p s g = Inr (x, p', g') \<longrightarrow>
      startNode p' = startNode p \<and> endNode p' = endNode p"
    using getFlowHeadLoss_Problem2_nodes[of lib p s g] by blast
  have c11: "\<forall>x p' g'. getFlowHeadLoss_OOP lib p s g = Inr (x, p', g') \<longrightarrow>
      startNode p' = startNode p \<and> endNode p' = endNode p"
    using getFlowHeadLoss_OOP_nodes[of lib p s g] by blast
  have c12: "startNode (p\<lparr>Q_Ls := q\<rparr>) = startNode p" "endNode (p\<lparr>Q_Ls := q\<rparr>) = endNode p"
    by simp_all
  show ?thesis
    by (intro conjI) (rule c1 c2 c3 c4 c5 c6 c7 c8 c9 c10 c11 c12)+
qed

theorem Pipe_orientation_witness:
  "Pipe_init_Problem2 ''b'' ''a'' 100 200 0.00025 (example_fluid 100) = Inr (example_pipe 100 100) \<and>
   Pipe_init_OOP ''b'' ''a'' 100 200 0.00025 (example_fluid 100) = Inr (example_pipe 100 100) \<and>
   startNode (example_pipe 100 100) < endNode (example_pipe 100 100) \<and>
   getFlowHeadLoss_Problem2 no_library (example_pipe 100 100) ''b'' () =
     Inr (- (3200000000 / (981 * pi)), example_pipe 100 100, ()) \<and>
   getFlowHeadLoss_OOP no_library (example_pipe 100 100) ''b'' () =
     Inr (- (800000000 / (981 * pi)), example_pipe 100 100, ())"
proof -
  have c: "Pipe_init_Problem2 ''b'' ''a'' 100 200 0.00025 (example_fluid 100) = Inr (example_pipe 100 100)"
    "Pipe_init_OOP ''b'' ''a'' 100 200 0.00025 (example_fluid 100) = Inr (example_pipe 100 100)"
    by (simp_all add: Pipe_init_OOP_def Pipe_init_Problem2_def Pipe_new_def Pipe_V_def Re_OOP_def
        Re_Problem2_def example_pipe_def example_fluid_def power2_eq_square)
  have d: "''b'' \<noteq> ''a''" by simp
  note t = Pipe_orientation[where Start = "''b''" and End = "''a''" and L = 100 and D = 200
      and r = "0.00025" and fl = "example_fluid 100" and p = "example_pipe 100 100"
      and lib = no_library and g = "()" and s = "''b''" and q = 0]
  from t have "Pipe_init_Problem2 ''b'' ''a'' 100 200 0.00025 (example_fluid 100) =
      Inr (example_pipe 100 100) \<longrightarrow>
      startNode (example_pipe 100 100) \<le> endNode (example_pipe 100 100) \<and>
      (''b'' \<noteq> ''a'' \<longrightarrow> startNode (example_pipe 100 100) < endNode (example_pipe 100 100))"
    by (rule conjunct1)
  from this[THEN mp, OF c(1), THEN conjunct2, THEN mp, OF d]
  have o: "startNode (example_pipe 100 100) < endNode (example_pipe 100 100)" .
  have "getFlowHeadLoss_Problem2 no_library (example_pipe 100 100) ''b'' () =
     Inr (- (3200000000 / (981 * pi)), example_pipe 100 100, ())"
    "getFlowHeadLoss_OOP no_library (example_pipe 100 100) ''b'' () =
     Inr (- (800000000 / (981 * pi)), example_pipe 100 100, ())"
    by (simp_all add: laminar_getFlowHeadLoss_Problem2 laminar_getFlowHeadLoss_OOP field_simps
        power2_eq_square)
  with c o show ?thesis by simp
qed

subsection \<open>Lengths of the residual\<close>

lemma getNodeFlowRates_length:
  "getNodeFlowRates h ns = Inr qs \<Longrightarrow> length qs = length ns"
  by (induction ns arbitrary: qs) (auto dest!: bind_py_Inr)

lemma getLoopHeadLosses_OOP_length:
  "getLoopHeadLosses_OOP lib ls w = Inr (xs, w') \<Longrightarrow> length xs = length ls"
  by (induction ls arbitrary: xs w w') (auto dest!: bind_py_Inr)

lemma fn_OOP_length:
  "fn_OOP lib net q w = Inr (r, w') \<Longrightarrow> length r = length (nodes net) + length (loops net)"
  by (auto simp: fn_OOP_def Let_def dest!: bind_py_Inr getNodeFlowRates_length
      getLoopHeadLosses_OOP_length)

lemma set_flows_two_pipes:
  "set_flows (PipeNetwork.pipes network_ab) 0 [10, 10] (heap (two_pipes g)) = Inr (heap (two_pipes g))"
  by (auto simp: network_ab_def getitem_def deref_def two_pipes_def example_pipe_def fun_eq_iff)

lemma node_flows_two_pipes:
  "getNodeFlowRates (heap (two_pipes g)) (nodes network_ab) = Inr [0, 0]"
  by (simp add: network_ab_def getNetFlowRate_def deref_def getFlowIntoNode_def)

lemma fn_OOP_two_pipes:
  "fn_OOP lib network_ab [10, 10] (two_pipes g) =
     Inr ([0, 0, 800000000 / (981 * pi)], two_pipes g)"
  by (simp add: fn_OOP_def set_flows_two_pipes node_flows_two_pipes)
     (simp add: network_ab_def getLoopHeadLoss_two_pipes)
text \<open>
  Claim C6 as stated: the residual has the length of the unknown vector. Run on the
  two-loop example network with five unknowns, \<open>GetKirchoffVals\<close> of HW6\_1\_2\_OOP.py
  returns four values; run on the network of two pipes, two nodes and one loop with the
  two flow rates, \<open>fn\<close> of HW6\_2\_OOP.py returns three.
\<close>

theorem residual_length_counterexample:
  "map_sum id fst (GetKirchoffVals_HW6_1_2 example_network2 [1, 2, 3, 4, 5]) = Inr [9, 21, - 4, 0] \<and>
   fn_OOP no_library network_ab [10, 10] (two_pipes ()) =
     Inr ([0, 0, 800000000 / (981 * pi)], two_pipes ())"
  by (simp add: fn_OOP_two_pipes GetKirchoffVals_HW6_1_2_def example_network2_def
      example_network_def getitem_def set_Current_def GetResistorByName_def GetLoopVoltageDrops_def
      GetElementDeltaV_def segment_name_def DeltaV_def upt_rec[of 0])

text \<open>
  Claim C6 as amended. When it returns, the residual of \<open>GetKirchoffVals\<close> in
  HW6\_1\_2\_OOP.py has as many entries as the network has loops, plus two; that of \<open>fn\<close> in
  HW6\_2\_OOP.py has as many as the network has nodes and loops together. Neither depends
  on the length of the unknown vector, so the two lengths agree exactly when the unknown
  vector has that many entries.
\<close>

theorem residual_length_by_topology:
  "(\<forall>r net'. GetKirchoffVals_HW6_1_2 net i = Inr (r, net') \<longrightarrow>
      length r = length (Loops net) + 2 \<and>
      (length r = length i \<longleftrightarrow> length i = length (Loops net) + 2)) \<and>
   (\<forall>r w'. fn_OOP lib pn q w = Inr (r, w') \<longrightarrow>
      length r = length (nodes pn) + length (loops pn) \<and>
      (length r = length q \<longleftrightarrow> length q = length (nodes pn) + length (loops pn)))"
proof (intro conjI[of "\<forall>r net'. _ r net'" "\<forall>r w'. _ r w'"] allI impI)
  fix r net' assume "GetKirchoffVals_HW6_1_2 net i = Inr (r, net')"
  from GetKirchoffVals_HW6_1_2_length[OF this]
  show "length r = length (Loops net) + 2 \<and>
      (length r = length i \<longleftrightarrow> length i = length (Loops net) + 2)" by auto
next
  fix r w' assume "fn_OOP lib pn q w = Inr (r, w')"
  from fn_OOP_length[OF this]
  show "length r = length (nodes pn) + length (loops pn) \<and>
      (length r = length q \<longleftrightarrow> length q = length (nodes pn) + length (loops pn))" by auto
qed

theorem residual_length_by_topology_witness:
  "(\<exists>net'. GetKirchoffVals_HW6_1_2 example_network2 [1, 2, 3, 4] = Inr ([9, 21, - 4, 0], net')) \<and>
   length [9, 21, - 4, 0 :: real] = length (Loops example_network2) + 2 \<and>
   fn_OOP no_library network_ab [10, 10] (two_pipes ()) =
     Inr ([0, 0, 800000000 / (981 * pi)], two_pipes ()) \<and>
   length [0, 0, 800000000 / (981 * pi)] = length (nodes network_ab) + length (loops network_ab)"
proof -
  have e: "\<exists>net'. GetKirchoffVals_HW6_1_2 example_network2 [1, 2, 3, 4] = Inr ([9, 21, - 4, 0], net')"
    by (simp add: GetKirchoffVals_HW6_1_2_def example_network2_def
      example_network_def getitem_def set_Current_def GetResistorByName_def GetLoopVoltageDrops_def
      GetElementDeltaV_def segment_name_def DeltaV_def upt_rec[of 0])
  have f: "fn_OOP no_library network_ab [10, 10] (two_pipes ()) =
     Inr ([0, 0, 800000000 / (981 * pi)], two_pipes ())"
    by (rule fn_OOP_two_pipes)
  note t = residual_length_by_topology[where net = example_network2 and i = "[1, 2, 3, 4]"
      and lib = no_library and pn = network_ab and q = "[10, 10]" and w = "two_pipes ()"]
  from t e have a: "length [9, 21, - 4, 0 :: real] = length (Loops example_network2) + 2"
    by blast
  from t[THEN conjunct2, THEN spec, THEN spec, THEN mp, OF f, THEN conjunct1]
  have b: "length [0, 0, 800000000 / (981 * pi)] = length (nodes network_ab) + length (loops network_ab)" .
  from e a f b show ?thesis by blast
qed

subsection \<open>The flow rates are never solved for\<close>

text \<open>
  Claim C10. \<open>findFlowRates\<close> of HW6\_2\_OOP.py defines its callback and never calls the
  root finder: for every network it returns \<open>None\<close> and leaves the heap of pipes, with
  every flow rate \<open>Q\<close> and every other field, and the random number generator as they
  were.
\<close>

theorem findFlowRates_OOP_does_nothing: "findFlowRates_OOP lib net w = (None, w)"
  by (simp add: findFlowRates_OOP_def Let_def)

end
